theory Spec2Isabelle
  imports Complex_Main "HOL-Library.Multiset" "HOL-Library.Sublist"
begin

section \<open>The working table\<close>

text \<open>
  A shallow embedding of \<^verbatim>\<open>dashboard.py\<close>.  The pandas DataFrame is a list of column
  names and a list of rows; a row gives a cell to each column name.  A cell is a number
  (an exact rational: the rounding of float64 is not modelled), a string, a timestamp
  (seconds since the epoch) or the missing value (pandas NaN / NaT, which
  \<^verbatim>\<open>read_csv\<close> puts in every empty field).
\<close>

datatype cell = Num rat | Str string | Stamp int | NA

type_synonym row = "(string \<times> cell) list"

record table =
  columns :: "string list"
  rows :: "row list"

text \<open>
  Exceptions are values.  All but the last are instances of Python's \<^verbatim>\<open>Exception\<close>;
  \<open>NonException\<close> stands for the exceptions outside that class (KeyboardInterrupt,
  SystemExit, the toolkit's script control), which \<^verbatim>\<open>except Exception\<close> lets pass.
\<close>

datatype exn =
    KeyError string
  | ValueError string
  | TypeError string
  | AttributeError string
  | StreamlitAPIException string
  | UnboundLocalError string
  | NonException string

fun is_Exception :: "exn \<Rightarrow> bool" where
  "is_Exception (NonException s) = False"
| "is_Exception e = True"

definition cell_at :: "row \<Rightarrow> string \<Rightarrow> cell" where
  "cell_at r c = (case map_of r c of Some v \<Rightarrow> v | None \<Rightarrow> NA)"

definition column_values :: "table \<Rightarrow> string \<Rightarrow> cell list" where
  "column_values df c = map (\<lambda>r. cell_at r c) (rows df)"

text \<open>\<^verbatim>\<open>df[c]\<close>: a missing column raises KeyError.\<close>

definition getitem :: "table \<Rightarrow> string \<Rightarrow> exn + cell list" where
  "getitem df c = (if c \<in> set (columns df) then Inr (column_values df c) else Inl (KeyError c))"

section \<open>Grouping\<close>

text \<open>
  \<^verbatim>\<open>df.groupby(keys)\<close> with the defaults \<^verbatim>\<open>sort=True\<close> and \<^verbatim>\<open>dropna=True\<close>: one
  group for each distinct combination of key values, in the sort order of the keys; a row
  with a missing value in a key column belongs to no group.
\<close>

fun str_le :: "string \<Rightarrow> string \<Rightarrow> bool" where
  "str_le [] t = True"
| "str_le (a # s) [] = False"
| "str_le (a # s) (b # t) =
     (if a = b then str_le s t else (of_char a :: nat) < of_char b)"

fun cell_rank :: "cell \<Rightarrow> nat" where
  "cell_rank (Num a) = 0"
| "cell_rank (Str s) = 1"
| "cell_rank (Stamp n) = 2"
| "cell_rank NA = 3"

fun cell_le :: "cell \<Rightarrow> cell \<Rightarrow> bool" where
  "cell_le (Num a) (Num b) = (a \<le> b)"
| "cell_le (Str s) (Str t) = str_le s t"
| "cell_le (Stamp m) (Stamp n) = (m \<le> n)"
| "cell_le u v = (cell_rank u \<le> cell_rank v)"

fun key_le :: "cell list \<Rightarrow> cell list \<Rightarrow> bool" where
  "key_le [] l = True"
| "key_le (u # k) [] = False"
| "key_le (u # k) (v # l) = (if u = v then key_le k l else cell_le u v)"

fun place_key :: "cell list \<Rightarrow> cell list list \<Rightarrow> cell list list" where
  "place_key k [] = [k]"
| "place_key k (l # ls) = (if key_le k l then k # l # ls else l # place_key k ls)"

definition sort_keys :: "cell list list \<Rightarrow> cell list list" where
  "sort_keys ks = foldr place_key ks []"

definition key_of :: "string list \<Rightarrow> row \<Rightarrow> cell list" where
  "key_of gb r = map (cell_at r) gb"

definition has_na :: "cell list \<Rightarrow> bool" where
  "has_na k = (NA \<in> set k)"

definition group_keys :: "string list \<Rightarrow> row list \<Rightarrow> cell list list" where
  "group_keys gb rs = sort_keys (remdups (filter (\<lambda>k. \<not> has_na k) (map (key_of gb) rs)))"

definition group_rows :: "string list \<Rightarrow> row list \<Rightarrow> cell list \<Rightarrow> row list" where
  "group_rows gb rs k = filter (\<lambda>r. key_of gb r = k) rs"

record grouped =
  frame :: table
  keys :: "string list"
  groups :: "(cell list \<times> row list) list"

definition groupby :: "table \<Rightarrow> string list \<Rightarrow> exn + grouped" where
  "groupby df gb =
     (case filter (\<lambda>c. c \<notin> set (columns df)) gb of
        c # cs \<Rightarrow> Inl (KeyError c)
      | [] \<Rightarrow> Inr \<lparr>frame = df, keys = gb,
                  groups = map (\<lambda>k. (k, group_rows gb (rows df) k)) (group_keys gb (rows df))\<rparr>)"

text \<open>
  A grouped result before \<^verbatim>\<open>reset_index\<close>: the key columns are the index, the value
  columns hold one list of cells for each key.
\<close>

record indexed =
  index_names :: "string list"
  value_names :: "string list"
  entries :: "(cell list \<times> cell list) list"

text \<open>\<^verbatim>\<open>.size()\<close>: the number of rows of each group, as an unnamed series.\<close>

definition size_of :: "grouped \<Rightarrow> string list \<times> (cell list \<times> nat) list" where
  "size_of g = (keys g, map (\<lambda>(k, rs). (k, length rs)) (groups g))"

text \<open>
  \<^verbatim>\<open>reset_index\<close> turns the index levels into columns; it raises ValueError
  (``cannot insert ..., already exists'') when a level's name is already a column.
\<close>

definition reset_index :: "indexed \<Rightarrow> exn + table" where
  "reset_index ix =
     (if \<not> distinct (index_names ix @ value_names ix) then Inl (ValueError ''cannot insert'')
      else Inr \<lparr>columns = index_names ix @ value_names ix,
                rows = map (\<lambda>(k, vs). zip (index_names ix) k @ zip (value_names ix) vs)
                         (entries ix)\<rparr>)"

definition reset_index_name :: "string list \<times> (cell list \<times> nat) list \<Rightarrow> string \<Rightarrow> exn + table" where
  "reset_index_name s name =
     reset_index \<lparr>index_names = fst s, value_names = [name],
                  entries = map (\<lambda>(k, n). (k, [Num (of_nat n)])) (snd s)\<rparr>"

text \<open>
  \<^verbatim>\<open>.agg({c: 'mean', ...})\<close>: the mean of each named column within each group.  A
  named column that the frame lacks raises KeyError.  A column is numeric when each of
  its cells is a number or missing; the mean of a column of strings raises TypeError (the
  mean of a datetime column is not modelled and is raised as TypeError as well).  Missing
  values are skipped, and a group without any value has a missing mean.
\<close>

fun is_numeric :: "cell \<Rightarrow> bool" where
  "is_numeric (Num a) = True"
| "is_numeric NA = True"
| "is_numeric v = False"

definition numeric_column :: "table \<Rightarrow> string \<Rightarrow> bool" where
  "numeric_column df c = list_all is_numeric (column_values df c)"

fun numbers :: "cell list \<Rightarrow> rat list" where
  "numbers [] = []"
| "numbers (Num a # vs) = a # numbers vs"
| "numbers (v # vs) = numbers vs"

definition mean :: "cell list \<Rightarrow> cell" where
  "mean vs = (case numbers vs of [] \<Rightarrow> NA
              | a # as \<Rightarrow> Num (sum_list (a # as) / of_nat (length (a # as))))"

definition agg_mean :: "grouped \<Rightarrow> string list \<Rightarrow> exn + indexed" where
  "agg_mean g cs =
     (case filter (\<lambda>c. c \<notin> set (columns (frame g))) cs of
        c # cs' \<Rightarrow> Inl (KeyError c)
      | [] \<Rightarrow>
        (case filter (\<lambda>c. \<not> numeric_column (frame g) c) cs of
           c # cs' \<Rightarrow> Inl (TypeError c)
         | [] \<Rightarrow> Inr \<lparr>index_names = keys g, value_names = cs,
                     entries = map (\<lambda>(k, rs). (k, map (\<lambda>c. mean (map (\<lambda>r. cell_at r c) rs)) cs))
                                 (groups g)\<rparr>))"

text \<open>Sequencing of steps that may raise: the first exception ends the computation.\<close>

definition and_then :: "exn + 'a \<Rightarrow> ('a \<Rightarrow> exn + 'b) \<Rightarrow> exn + 'b" where
  "and_then m f = (case m of Inl e \<Rightarrow> Inl e | Inr v \<Rightarrow> f v)"

section \<open>The aggregation step of the chart blocks\<close>

definition mean_columns :: "string list" where
  "mean_columns = [''Age Days'', ''Age Weeks'', ''Min Titer'', ''Max Titer'', ''Mean Titer'']"

text \<open>Lines 138--142 of \<^verbatim>\<open>create_chart\<close>.\<close>

definition aggregate :: "table \<Rightarrow> string list \<Rightarrow> string \<Rightarrow> exn + table" where
  "aggregate df group_by y_axis =
     (if group_by \<noteq> [] then
        (if y_axis = ''Results Count'' then
           and_then (groupby df group_by) (\<lambda>g. reset_index_name (size_of g) ''Results Count'')
         else
           and_then (groupby df group_by) (\<lambda>g. and_then (agg_mean g mean_columns) reset_index))
      else Inr df)"

text \<open>Lines 174--179 of \<^verbatim>\<open>custom_chart\<close>; the second component is the y axis afterwards.\<close>

definition custom_aggregate :: "table \<Rightarrow> string list \<Rightarrow> string \<Rightarrow> exn + table \<times> string" where
  "custom_aggregate df group_by y_axis =
     (if group_by \<noteq> [] then
        (if y_axis = ''Result'' then
           and_then (and_then (groupby df group_by)
                       (\<lambda>g. reset_index_name (size_of g) ''Results Count''))
             (\<lambda>df'. Inr (df', ''Results Count''))
         else
           and_then (and_then (groupby df group_by)
                       (\<lambda>g. and_then (agg_mean g [y_axis]) reset_index))
             (\<lambda>df'. Inr (df', y_axis)))
      else Inr (df, y_axis))"

section \<open>Widgets\<close>

text \<open>
  The toolkit keeps, for the session, what the user last chose in each widget, under the
  widget's key (its label when it has no key).  A widget returns that choice, and its
  default while the session holds none.  \<^verbatim>\<open>selectbox\<close> raises when the default index is
  not a position of the option list (for an empty option list the toolkit returns None and
  the next use of the value raises; both end in the block's warning), and
  \<^verbatim>\<open>multiselect\<close> raises when a default value is not among the options.
\<close>

record ui =
  checkbox_state :: "string \<Rightarrow> bool option"
  selectbox_state :: "string \<Rightarrow> string option"
  multiselect_state :: "string \<Rightarrow> string list option"
  date_range_state :: "string \<Rightarrow> (int \<times> int) option"
  text_input_state :: "string \<Rightarrow> string option"
  slider_state :: "string \<Rightarrow> int option"

definition checkbox :: "ui \<Rightarrow> string \<Rightarrow> bool \<Rightarrow> bool" where
  "checkbox u label val = (case checkbox_state u label of None \<Rightarrow> val | Some b \<Rightarrow> b)"

definition selectbox :: "ui \<Rightarrow> string list \<Rightarrow> nat \<Rightarrow> string \<Rightarrow> exn + string" where
  "selectbox u options index key =
     (if index < length options then
        Inr (case selectbox_state u key of None \<Rightarrow> options ! index | Some v \<Rightarrow> v)
      else Inl (StreamlitAPIException ''Selectbox index''))"

definition multiselect :: "ui \<Rightarrow> string list \<Rightarrow> string list option \<Rightarrow> string \<Rightarrow> exn + string list" where
  "multiselect u options dflt key =
     (let d = (case dflt of None \<Rightarrow> [] | Some vs \<Rightarrow> vs) in
      if \<not> set d \<subseteq> set options then Inl (StreamlitAPIException ''Multiselect default'')
      else Inr (case multiselect_state u key of None \<Rightarrow> d | Some sel \<Rightarrow> sel))"

definition text_input :: "ui \<Rightarrow> string \<Rightarrow> string \<Rightarrow> string" where
  "text_input u val key = (case text_input_state u key of None \<Rightarrow> val | Some t \<Rightarrow> t)"

definition slider :: "ui \<Rightarrow> int \<Rightarrow> string \<Rightarrow> int" where
  "slider u val key = (case slider_state u key of None \<Rightarrow> val | Some h \<Rightarrow> h)"

text \<open>The date-range slider needs proper dates as bounds.\<close>

definition date_range_slider :: "ui \<Rightarrow> int option \<Rightarrow> int option \<Rightarrow> string \<Rightarrow> exn + int option \<times> int option" where
  "date_range_slider u min_value max_value key =
     (case (min_value, max_value) of
        (Some lo, Some hi) \<Rightarrow>
          (case date_range_state u key of
             None \<Rightarrow> Inr (Some lo, Some hi)
           | Some (a, b) \<Rightarrow> Inr (Some a, Some b))
      | _ \<Rightarrow> Inl (StreamlitAPIException ''Slider value''))"

text \<open>\<^verbatim>\<open>str.lower\<close> on ASCII letters.\<close>

fun lower_char :: "char \<Rightarrow> char" where
  "lower_char (Char b0 b1 b2 b3 b4 b5 b6 b7) =
     (let n = (of_char (Char b0 b1 b2 b3 b4 b5 b6 b7) :: nat)
      in if 65 \<le> n \<and> n \<le> 90 then Char b0 b1 b2 b3 b4 True b6 b7
         else Char b0 b1 b2 b3 b4 b5 b6 b7)"

definition lower :: "string \<Rightarrow> string" where
  "lower s = map lower_char s"

section \<open>Parameter selection\<close>

definition select_param :: "ui \<Rightarrow> string \<Rightarrow> nat \<Rightarrow> nat \<Rightarrow> exn + string \<times> string" where
  "select_param u key x y =
     and_then (selectbox u [''Age Days'', ''Age Weeks'', ''Testdate'', ''Assay''] x (key @ ''_x_axis''))
       (\<lambda>x_axis.
     and_then (selectbox u [''Mean Titer'', ''Min Titer'', ''Max Titer'', ''GMT'', ''Results Count''] y
                 (key @ ''_y_axis''))
       (\<lambda>y_axis. Inr (x_axis, y_axis)))"

text \<open>The local \<^verbatim>\<open>options\<close> of \<^verbatim>\<open>select_grouping\<close> after its line 67.\<close>

definition grouping_options :: "string \<Rightarrow> string list" where
  "grouping_options y_axis =
     [''Testdate'', ''GMT'', ''Assay'', ''Result'']
       @ (if y_axis = ''Results Count'' then [''Result''] else [])"

definition select_grouping ::
  "ui \<Rightarrow> string \<Rightarrow> string list option \<Rightarrow> nat \<Rightarrow> string \<Rightarrow> exn + string list \<times> string" where
  "select_grouping u key grp color y_axis =
     and_then (multiselect u (grouping_options y_axis) grp (key @ ''_group_by''))
       (\<lambda>group_by.
     and_then (selectbox u [''Assay'', ''Result''] color (key @ ''_color_by''))
       (\<lambda>color_by. Inr (group_by, color_by)))"

section \<open>The date range\<close>

text \<open>
  A calendar date is a day number; \<^verbatim>\<open>.date()\<close> drops the time of day.  The minimum and
  maximum of a datetime column skip missing values and are missing (None) when the column
  has no value.  A column with a cell that is no datetime has no \<^verbatim>\<open>.date()\<close> and no
  \<^verbatim>\<open>.dt\<close>.
\<close>

definition date :: "int \<Rightarrow> int" where
  "date s = s div 86400"

fun stamps :: "cell list \<Rightarrow> int list" where
  "stamps [] = []"
| "stamps (Stamp s # vs) = s # stamps vs"
| "stamps (v # vs) = stamps vs"

fun is_datetime :: "cell \<Rightarrow> bool" where
  "is_datetime (Stamp s) = True"
| "is_datetime NA = True"
| "is_datetime v = False"

definition stamp_min :: "cell list \<Rightarrow> int option" where
  "stamp_min vs = (case stamps vs of [] \<Rightarrow> None | s # ss \<Rightarrow> Some (fold min ss s))"

definition stamp_max :: "cell list \<Rightarrow> int option" where
  "stamp_max vs = (case stamps vs of [] \<Rightarrow> None | s # ss \<Rightarrow> Some (fold max ss s))"

definition datetime_column :: "table \<Rightarrow> string \<Rightarrow> exn + cell list" where
  "datetime_column df c =
     and_then (getitem df c)
       (\<lambda>vs. if list_all is_datetime vs then Inr vs else Inl (AttributeError ''datetimelike''))"

definition date_slider :: "ui \<Rightarrow> table \<Rightarrow> string \<Rightarrow> string \<Rightarrow> exn + int option \<times> int option" where
  "date_slider u df key x_axis =
     and_then (datetime_column df ''Testdate'')
       (\<lambda>vs.
          let min_date = map_option date (stamp_min vs);
              max_date = map_option date (stamp_max vs)
          in if x_axis = ''Testdate'' then date_range_slider u min_date max_date key
             else Inr (min_date, max_date))"

text \<open>
  Line 137 of \<^verbatim>\<open>create_chart\<close> (and 173 of \<^verbatim>\<open>custom_chart\<close>):
  \<^verbatim>\<open>df[df['Testdate'].dt.date.between(lo, hi)]\<close>.  A comparison with a missing date is
  false, on either side.
\<close>

definition between :: "cell \<Rightarrow> int option \<Rightarrow> int option \<Rightarrow> bool" where
  "between v left right =
     (case (v, left, right) of
        (Stamp s, Some lo, Some hi) \<Rightarrow> lo \<le> date s \<and> date s \<le> hi
      | _ \<Rightarrow> False)"

definition filter_by_date :: "table \<Rightarrow> int option \<Rightarrow> int option \<Rightarrow> exn + table" where
  "filter_by_date df lo hi =
     and_then (datetime_column df ''Testdate'')
       (\<lambda>vs. Inr (df\<lparr>rows := filter (\<lambda>r. between (cell_at r ''Testdate'') lo hi) (rows df)\<rparr>))"

section \<open>Chart constructors\<close>

text \<open>
  A figure records what the plotting library was given.  Plotly Express raises ValueError
  when an argument that names a column is not a column of the frame.
\<close>

datatype chart_kind = Line | Scatter | Box | Violin | Bar

record figure =
  fig_kind :: chart_kind
  fig_data :: table
  fig_x :: string
  fig_y :: string
  fig_color :: string
  fig_facet_col :: "string option"
  fig_title :: "string option"
  fig_height :: "int option"

definition px :: "chart_kind \<Rightarrow> table \<Rightarrow> string \<Rightarrow> string \<Rightarrow> string \<Rightarrow> string option \<Rightarrow> exn + figure" where
  "px k df x_axis y_axis color_by fac =
     (case filter (\<lambda>c. c \<notin> set (columns df))
             ([x_axis, y_axis, color_by] @ (case fac of None \<Rightarrow> [] | Some f \<Rightarrow> [f])) of
        c # cs \<Rightarrow> Inl (ValueError c)
      | [] \<Rightarrow> Inr \<lparr>fig_kind = k, fig_data = df, fig_x = x_axis, fig_y = y_axis,
                  fig_color = color_by, fig_facet_col = fac, fig_title = None,
                  fig_height = None\<rparr>)"

definition line_chart :: "table \<Rightarrow> string \<Rightarrow> string \<Rightarrow> string \<Rightarrow> exn + figure" where
  "line_chart df x_axis y_axis color_by = px Line df x_axis y_axis color_by None"

definition scatter_plot :: "table \<Rightarrow> string \<Rightarrow> string \<Rightarrow> string \<Rightarrow> exn + figure" where
  "scatter_plot df x_axis y_axis color_by = px Scatter df x_axis y_axis color_by None"

definition box_plot :: "table \<Rightarrow> string \<Rightarrow> string \<Rightarrow> string \<Rightarrow> exn + figure" where
  "box_plot df x_axis y_axis color_by = px Box df x_axis y_axis color_by None"

definition violin_plot :: "table \<Rightarrow> string \<Rightarrow> string \<Rightarrow> string \<Rightarrow> exn + figure" where
  "violin_plot df x_axis y_axis color_by = px Violin df x_axis y_axis color_by None"

definition bar_chart :: "table \<Rightarrow> string \<Rightarrow> string \<Rightarrow> string \<Rightarrow> exn + figure" where
  "bar_chart df x_axis y_axis color_by =
     (let fac = (if x_axis \<noteq> ''Assay'' then Some ''Assay'' else None)
      in px Bar df x_axis y_axis color_by fac)"

definition update_layout :: "figure \<Rightarrow> string \<Rightarrow> int \<Rightarrow> figure" where
  "update_layout fig t h = fig\<lparr>fig_title := Some t, fig_height := Some h\<rparr>"

section \<open>Chart blocks\<close>

text \<open>What a chart block puts on the page: nothing, a warning, or a figure.\<close>

datatype block = NoChart | Warning string | PlotlyChart figure

text \<open>The body of the \<^verbatim>\<open>try\<close> of \<^verbatim>\<open>create_chart\<close>, lines 127--146.\<close>

definition create_chart_body ::
  "ui \<Rightarrow> table \<Rightarrow> string \<Rightarrow> nat \<Rightarrow> nat \<Rightarrow> string list option \<Rightarrow> nat
     \<Rightarrow> (table \<Rightarrow> string \<Rightarrow> string \<Rightarrow> string \<Rightarrow> exn + figure) \<Rightarrow> exn + block" where
  "create_chart_body u df chart x y group_by color_by chart_func =
     (let show_chart = checkbox u (''Show '' @ lower chart) True in
      if show_chart then
        and_then (select_param u (lower chart) x y) (\<lambda>(x_axis, y_axis).
        and_then (select_grouping u (lower chart) group_by color_by y_axis) (\<lambda>(group_by', color_by').
        and_then (date_slider u df (lower chart) x_axis) (\<lambda>(selected_min_date, selected_max_date).
        let chart_title = text_input u (chart @ '': '' @ y_axis @ '' vs. '' @ x_axis)
                            (lower chart @ ''title'');
            chart_height = slider u 500 (lower chart @ ''height'')
        in
        and_then (filter_by_date df selected_min_date selected_max_date) (\<lambda>df1.
        and_then (aggregate df1 group_by' y_axis) (\<lambda>df2.
        and_then (chart_func df2 x_axis y_axis color_by') (\<lambda>fig.
        Inr (PlotlyChart (update_layout fig chart_title chart_height))))))))
      else Inr NoChart)"

text \<open>\<^verbatim>\<open>except Exception\<close>, lines 147--149: a warning in place of the chart.\<close>

definition create_chart ::
  "ui \<Rightarrow> table \<Rightarrow> string \<Rightarrow> nat \<Rightarrow> nat \<Rightarrow> string list option \<Rightarrow> nat
     \<Rightarrow> (table \<Rightarrow> string \<Rightarrow> string \<Rightarrow> string \<Rightarrow> exn + figure) \<Rightarrow> exn + block" where
  "create_chart u df chart x y group_by color_by chart_func =
     (case create_chart_body u df chart x y group_by color_by chart_func of
        Inl e \<Rightarrow>
          if is_Exception e
          then Inr (Warning ''Sorry, an error is encountered. Please check your inputs.'')
          else Inl e
      | Inr b \<Rightarrow> Inr b)"

text \<open>The body of the \<^verbatim>\<open>try\<close> of \<^verbatim>\<open>custom_chart\<close>, lines 159--192.\<close>

definition custom_chart_body :: "ui \<Rightarrow> table \<Rightarrow> exn + block" where
  "custom_chart_body u df =
     (let all_columns = columns df;
          show_chart = checkbox u ''Add custom chart'' False in
      if show_chart then
        and_then (selectbox u [''Line Chart'', ''Scatter Plot'', ''Bar Chart'', ''Box Plot'', ''Violin Plot'']
                    0 ''Select Chart Type'') (\<lambda>chart.
        and_then (selectbox u all_columns 0 ''custom_x_axis'') (\<lambda>x_axis.
        and_then (selectbox u all_columns 0 ''custom_y_axis'') (\<lambda>y_axis.
        and_then (multiselect u all_columns None ''custom_group_by'') (\<lambda>group_by.
        and_then (selectbox u all_columns 0 ''custom_color_by'') (\<lambda>color_by.
        and_then (date_slider u df ''custom'' x_axis) (\<lambda>(selected_min_date, selected_max_date).
        let chart_title = text_input u (chart @ '': '' @ y_axis @ '' vs. '' @ x_axis) ''Chart Title'';
            chart_height = slider u 500 ''Chart Height''
        in
        and_then (filter_by_date df selected_min_date selected_max_date) (\<lambda>df1.
        and_then (custom_aggregate df1 group_by y_axis) (\<lambda>(df2, y_axis').
        and_then
          (if chart = ''Line Chart'' then line_chart df2 x_axis y_axis' color_by
           else if chart = ''Bar Chart'' then bar_chart df2 x_axis y_axis' color_by
           else if chart = ''Box Plot'' then box_plot df2 x_axis y_axis' color_by
           else if chart = ''Violin Plot'' then violin_plot df2 x_axis y_axis' color_by
           else if chart = ''Scatter Plot'' then scatter_plot df2 x_axis y_axis' color_by
           else Inl (UnboundLocalError ''fig'')) (\<lambda>fig.
        Inr (PlotlyChart (update_layout fig chart_title chart_height)))))))))))
      else Inr NoChart)"

definition custom_chart :: "ui \<Rightarrow> table \<Rightarrow> exn + block" where
  "custom_chart u df =
     (case custom_chart_body u df of
        Inl e \<Rightarrow>
          if is_Exception e
          then Inr (Warning ''Sorry, the chart cannot be generated. Please check your inputs.'')
          else Inl e
      | Inr b \<Rightarrow> Inr b)"

section \<open>Loading\<close>

text \<open>
  An uploaded file is given by its name and by what \<^verbatim>\<open>pd.read_csv(file, sep=';')\<close> makes
  of it.  The parser of one date in the format \<^verbatim>\<open>%d/%m/%Y\<close> is a parameter: it yields the
  day number, or None for a text that does not match.  A missing date stays missing.
\<close>

record uploaded =
  file_name :: string
  read_csv :: "exn + table"

fun to_datetime :: "(string \<Rightarrow> int option) \<Rightarrow> cell list \<Rightarrow> exn + cell list" where
  "to_datetime strptime [] = Inr []"
| "to_datetime strptime (v # vs) =
     and_then
       (case v of
          NA \<Rightarrow> Inr NA
        | Stamp s \<Rightarrow> Inr (Stamp s)
        | Str t \<Rightarrow> (case strptime t of
                     None \<Rightarrow> Inl (ValueError t)
                   | Some d \<Rightarrow> Inr (Stamp (d * 86400)))
        | Num a \<Rightarrow> Inl (ValueError ''time data''))
       (\<lambda>w. and_then (to_datetime strptime vs) (\<lambda>ws. Inr (w # ws)))"

definition drop_unnamed :: "table \<Rightarrow> table" where
  "drop_unnamed df =
     \<lparr>columns = filter (\<lambda>c. \<not> prefix ''Unnamed'' c) (columns df),
      rows = map (filter (\<lambda>(c, v). \<not> prefix ''Unnamed'' c)) (rows df)\<rparr>"

definition set_column :: "table \<Rightarrow> string \<Rightarrow> cell list \<Rightarrow> table" where
  "set_column df c vs =
     df\<lparr>rows := map (\<lambda>(r, v). (c, v) # filter (\<lambda>(d, w). d \<noteq> c) r) (zip (rows df) vs)\<rparr>"

definition load_data :: "(string \<Rightarrow> int option) \<Rightarrow> uploaded \<Rightarrow> exn + table" where
  "load_data strptime uploaded_file =
     and_then (read_csv uploaded_file) (\<lambda>df0.
     let df = drop_unnamed df0 in
     and_then (getitem df ''Testdate'') (\<lambda>vs.
     and_then (to_datetime strptime vs) (\<lambda>ds. Inr (set_column df ''Testdate'' ds))))"

section \<open>The script\<close>

text \<open>
  The four metrics, lines 243--247.  The minimum and maximum of a numeric column skip
  missing values; those of a column of strings compare the strings; a column that mixes
  kinds cannot be compared.
\<close>

datatype element = Toast string | Metric string cell | Block block

fun is_str :: "cell \<Rightarrow> bool" where
  "is_str (Str s) = True"
| "is_str v = False"

definition cell_extreme :: "(cell \<Rightarrow> cell \<Rightarrow> bool) \<Rightarrow> cell list \<Rightarrow> exn + cell" where
  "cell_extreme le vs =
     (if list_all is_numeric vs \<or> list_all is_str vs \<or> list_all is_datetime vs then
        (case filter (\<lambda>v. v \<noteq> NA) vs of
           [] \<Rightarrow> Inr NA
         | w # ws \<Rightarrow> Inr (fold (\<lambda>v m. if le v m then v else m) ws w))
      else Inl (TypeError ''not supported between''))"

definition nunique :: "cell list \<Rightarrow> nat" where
  "nunique vs = length (remdups (filter (\<lambda>v. v \<noteq> NA) vs))"

definition metrics :: "table \<Rightarrow> exn + element list" where
  "metrics df =
     and_then (getitem df ''Assay'') (\<lambda>assays.
     and_then (getitem df ''GMT'') (\<lambda>gmt.
     and_then (cell_extreme cell_le gmt) (\<lambda>lo.
     and_then (cell_extreme (\<lambda>a b. cell_le b a) gmt) (\<lambda>hi.
     Inr [Metric ''Total Number of Samples'' (Num (of_nat (length (rows df)))),
          Metric ''Number of Assays'' (Num (of_nat (nunique assays))),
          Metric ''Minimum GMT'' lo,
          Metric ''Maximum GMT'' hi]))))"

text \<open>Lines 239--263: the page for a loaded table.\<close>

definition dashboard :: "ui \<Rightarrow> table \<Rightarrow> exn + element list" where
  "dashboard u df =
     and_then (metrics df) (\<lambda>ms.
     and_then (create_chart u df ''Box plot'' 2 3 None 0 box_plot) (\<lambda>b1.
     and_then (create_chart u df ''Violin plot'' 2 3 None 0 violin_plot) (\<lambda>b2.
     and_then (create_chart u df ''Line chart'' 2 3 (Some [''Testdate'', ''GMT'', ''Assay'']) 0 line_chart)
       (\<lambda>b3.
     and_then (create_chart u df ''Bar chart'' 2 4 (Some [''Assay'', ''Testdate'', ''Result'']) 1 bar_chart)
       (\<lambda>b4.
     and_then (create_chart u df ''Scatter plot'' 0 3 (Some [''Testdate'', ''GMT'', ''Assay'']) 0
                 scatter_plot) (\<lambda>b5.
     and_then (custom_chart u df) (\<lambda>b6.
     Inr (Toast ''Loading dashboard...'' # ms @ map Block [b1, b2, b3, b4, b5, b6]))))))))"

text \<open>
  The session state holds \<^verbatim>\<open>loaded_data\<close>: absent (None), the Python None
  (\<open>Some None\<close>) or a table.  One run of the script, lines 229--263, takes the session
  state, the file held by the uploader (if any) and the widget state; it yields the new
  session state and the page, or the exception that ended the run.
\<close>

record session =
  loaded_data :: "table option option"

definition upload_step :: "(string \<Rightarrow> int option) \<Rightarrow> session \<Rightarrow> uploaded option \<Rightarrow> session \<times> (exn + element list)" where
  "upload_step strptime st uploaded_file =
     (let st1 = (if loaded_data st = None then st\<lparr>loaded_data := Some None\<rparr> else st) in
      case uploaded_file of
        Some f \<Rightarrow>
          if loaded_data st1 = Some None then
            (case load_data strptime f of
               Inl e \<Rightarrow> (st1, Inl e)
             | Inr df \<Rightarrow> (st1\<lparr>loaded_data := Some (Some df)\<rparr>,
                          Inr [Toast ''File uploaded successfully!'']))
          else (st1, Inr [])
      | None \<Rightarrow> (st1, Inr []))"

definition script :: "(string \<Rightarrow> int option) \<Rightarrow> ui \<Rightarrow> session \<Rightarrow> uploaded option \<Rightarrow> session \<times> (exn + element list)" where
  "script strptime u st uploaded_file =
     (case upload_step strptime st uploaded_file of
        (st2, Inl e) \<Rightarrow> (st2, Inl e)
      | (st2, Inr out) \<Rightarrow>
          (case loaded_data st2 of
             Some (Some df) \<Rightarrow> (st2, and_then (dashboard u df) (\<lambda>page. Inr (out @ page)))
           | _ \<Rightarrow> (st2, Inr out)))"

text \<open>A session: the script runs once for each event, on the state the last run left.\<close>

fun run_session :: "(string \<Rightarrow> int option) \<Rightarrow> session \<Rightarrow> (ui \<times> uploaded option) list \<Rightarrow> session" where
  "run_session strptime st [] = st"
| "run_session strptime st ((u, f) # evs) = run_session strptime (fst (script strptime u st f)) evs"

section \<open>Reading results\<close>

text \<open>The number in the count column of a row, and the arithmetic mean of numbers.\<close>

definition results_count :: "row \<Rightarrow> rat" where
  "results_count r = (case cell_at r ''Results Count'' of Num n \<Rightarrow> n | _ \<Rightarrow> 0)"


text \<open>
  The rows that \<^verbatim>\<open>groupby(...).size().reset_index(name='Results Count')\<close> and
  \<^verbatim>\<open>groupby(...).agg({c: 'mean', ...}).reset_index()\<close> build, and the second chain as one
  step.
\<close>

definition count_rows :: "string list \<Rightarrow> row list \<Rightarrow> row list" where
  "count_rows gb rs =
     map (\<lambda>k. zip gb k @ [(''Results Count'', Num (of_nat (length (group_rows gb rs k))))])
       (group_keys gb rs)"



text \<open>A step raises, if anything, an instance of \<^verbatim>\<open>Exception\<close>.\<close>

definition exceptions_only :: "exn + 'a \<Rightarrow> bool" where
  "exceptions_only m = (case m of Inl e \<Rightarrow> is_Exception e | Inr v \<Rightarrow> True)"

section \<open>Example inputs\<close>

text \<open>
  A session in which the user has touched no widget, and one in which the user has set the
  grouping of the line chart to Assay alone.
\<close>

definition untouched :: ui where
  "untouched = \<lparr>checkbox_state = (\<lambda>k. None), selectbox_state = (\<lambda>k. None),
                 multiselect_state = (\<lambda>k. None), date_range_state = (\<lambda>k. None),
                 text_input_state = (\<lambda>k. None), slider_state = (\<lambda>k. None)\<rparr>"

definition line_by_assay :: ui where
  "line_by_assay =
     untouched\<lparr>multiselect_state :=
       (\<lambda>k. if k = ''line chart_group_by'' then Some [''Assay''] else None)\<rparr>"

text \<open>
  Two samples of assay A taken on 01/01/2023 (day 19358, second 1672531200), one positive
  and one negative; the same table with the assay of the second sample left empty in the
  file; and the same table with the mean titer of the second sample left empty.
\<close>

definition two_samples :: table where
  "two_samples =
     \<lparr>columns = [''Testdate'', ''Assay'', ''Result'', ''GMT'', ''Age Days'', ''Age Weeks'',
                 ''Min Titer'', ''Max Titer'', ''Mean Titer''],
      rows = [[(''Testdate'', Stamp 1672531200), (''Assay'', Str ''A''), (''Result'', Str ''Pos''),
               (''GMT'', Num 10), (''Age Days'', Num 7), (''Age Weeks'', Num 1),
               (''Min Titer'', Num 1), (''Max Titer'', Num 9), (''Mean Titer'', Num 5)],
              [(''Testdate'', Stamp 1672531200), (''Assay'', Str ''A''), (''Result'', Str ''Neg''),
               (''GMT'', Num 20), (''Age Days'', Num 14), (''Age Weeks'', Num 2),
               (''Min Titer'', Num 3), (''Max Titer'', Num 11), (''Mean Titer'', Num 7)]]\<rparr>"

definition assay_missing :: table where
  "assay_missing =
     \<lparr>columns = [''Testdate'', ''Assay'', ''Result'', ''GMT'', ''Age Days'', ''Age Weeks'',
                 ''Min Titer'', ''Max Titer'', ''Mean Titer''],
      rows = [[(''Testdate'', Stamp 1672531200), (''Assay'', Str ''A''), (''Result'', Str ''Pos''),
               (''GMT'', Num 10), (''Age Days'', Num 7), (''Age Weeks'', Num 1),
               (''Min Titer'', Num 1), (''Max Titer'', Num 9), (''Mean Titer'', Num 5)],
              [(''Testdate'', Stamp 1672531200), (''Assay'', NA), (''Result'', Str ''Neg''),
               (''GMT'', Num 20), (''Age Days'', Num 14), (''Age Weeks'', Num 2),
               (''Min Titer'', Num 3), (''Max Titer'', Num 11), (''Mean Titer'', Num 7)]]\<rparr>"



text \<open>
  Two samples of which the second has no test date in the file; and two samples taken on
  01/01/2023 at midnight and at 23:00.
\<close>

definition date_missing :: table where
  "date_missing =
     \<lparr>columns = [''Testdate'', ''Assay''],
      rows = [[(''Testdate'', Stamp 1672531200), (''Assay'', Str ''A'')],
              [(''Testdate'', NA), (''Assay'', Str ''B'')]]\<rparr>"

definition same_day :: table where
  "same_day =
     \<lparr>columns = [''Testdate'', ''Assay''],
      rows = [[(''Testdate'', Stamp 1672531200), (''Assay'', Str ''A'')],
              [(''Testdate'', Stamp 1672614000), (''Assay'', Str ''B'')]]\<rparr>"

text \<open>
  Two uploaded files, a parser that knows their two dates, and the table that loading the
  first file gives.
\<close>

definition dmy :: "string \<Rightarrow> int option" where
  "dmy t = (if t = ''01/01/2023'' then Some 19358 else if t = ''02/01/2023'' then Some 19359 else None)"

definition first_file :: uploaded where
  "first_file = \<lparr>file_name = ''first.csv'',
     read_csv = Inr \<lparr>columns = [''Unnamed: 0'', ''Testdate'', ''Assay''],
                    rows = [[(''Unnamed: 0'', Num 0), (''Testdate'', Str ''01/01/2023''), (''Assay'', Str ''A'')]]\<rparr>\<rparr>"

definition second_file :: uploaded where
  "second_file = \<lparr>file_name = ''second.csv'',
     read_csv = Inr \<lparr>columns = [''Testdate'', ''Assay''],
                    rows = [[(''Testdate'', Str ''02/01/2023''), (''Assay'', Str ''B'')]]\<rparr>\<rparr>"

definition first_table :: table where
  "first_table = \<lparr>columns = [''Testdate'', ''Assay''],
                   rows = [[(''Testdate'', Stamp 1672531200), (''Assay'', Str ''A'')]]\<rparr>"

section \<open>Facts about grouping\<close>

lemma mset_place_key: "mset (place_key k ks) = add_mset k (mset ks)"
  by (induction ks) auto

lemma mset_sort_keys: "mset (sort_keys ks) = mset ks"
  unfolding sort_keys_def by (induction ks) (auto simp: mset_place_key)

lemma set_sort_keys: "set (sort_keys ks) = set ks"
  using mset_sort_keys [of ks] by (metis set_mset_mset)

lemma distinct_sort_keys: "distinct (sort_keys ks) = distinct ks"
  using mset_sort_keys [of ks] by (metis mset_eq_imp_distinct_iff)

lemma set_group_keys:
  "set (group_keys gb rs) = {k. (\<exists>r \<in> set rs. key_of gb r = k) \<and> \<not> has_na k}"
  unfolding group_keys_def set_sort_keys by auto

lemma distinct_group_keys: "distinct (group_keys gb rs)"
  by (simp add: group_keys_def distinct_sort_keys)

lemma length_group_key: "k \<in> set (group_keys gb rs) \<Longrightarrow> length k = length gb"
  by (auto simp: set_group_keys key_of_def)

lemma map_cell_at_skip: "c \<notin> set cs \<Longrightarrow> map (cell_at ((c, v) # r)) cs = map (cell_at r) cs"
  by (induction cs) (auto simp: cell_at_def)

lemma key_of_zip:
  "distinct cs \<Longrightarrow> length k = length cs \<Longrightarrow> key_of cs (zip cs k @ rest) = k"
  unfolding key_of_def
proof (induction cs arbitrary: k)
  case Nil then show ?case by simp
next
  case (Cons c cs)
  then obtain v k' where k: "k = v # k'" by (cases k) simp_all
  have "map (cell_at ((c, v) # zip cs k' @ rest)) cs = map (cell_at (zip cs k' @ rest)) cs"
    using Cons.prems by (simp add: map_cell_at_skip)
  moreover have "map (cell_at (zip cs k' @ rest)) cs = k'"
    using Cons k by simp
  moreover have "cell_at ((c, v) # zip cs k' @ rest) c = v"
    by (simp add: cell_at_def)
  ultimately show ?case using k by simp
qed

lemma cell_at_zip_append:
  "c \<notin> set cs \<Longrightarrow> cell_at (zip cs k @ rest) c = cell_at rest c"
proof -
  assume "c \<notin> set cs"
  then have "map_of (zip cs k) c = None"
    by (metis (no_types, lifting) map_of_eq_None_iff set_zip_leftD imageE prod.collapse)
  then show ?thesis by (simp add: cell_at_def map_add_def)
qed

lemma sum_group_sizes:
  "distinct ks \<Longrightarrow>
   sum_list (map (\<lambda>k. length (filter (\<lambda>r. f r = k) rs)) ks) = length (filter (\<lambda>r. f r \<in> set ks) rs)"
proof (induction ks)
  case Nil then show ?case by simp
next
  case (Cons k ks)
  then have "k \<notin> set ks" by simp
  then have "length (filter (\<lambda>r. f r \<in> set (k # ks)) rs)
      = length (filter (\<lambda>r. f r = k) rs) + length (filter (\<lambda>r. f r \<in> set ks) rs)"
    by (induction rs) auto
  then show ?case using Cons by simp
qed

lemma groupby_ok:
  "set gb \<subseteq> set (columns df) \<Longrightarrow>
   groupby df gb = Inr \<lparr>frame = df, keys = gb,
      groups = map (\<lambda>k. (k, group_rows gb (rows df) k)) (group_keys gb (rows df))\<rparr>"
proof -
  assume "set gb \<subseteq> set (columns df)"
  then have "filter (\<lambda>c. c \<notin> set (columns df)) gb = []"
    by (auto simp: filter_empty_conv)
  then show ?thesis by (simp add: groupby_def)
qed

lemma aggregate_count:
  assumes "gb \<noteq> []" "distinct gb" "set gb \<subseteq> set (columns df)" "''Results Count'' \<notin> set gb"
  shows "aggregate df gb ''Results Count''
         = Inr \<lparr>columns = gb @ [''Results Count''], rows = count_rows gb (rows df)\<rparr>"
  using assms
  by (simp add: aggregate_def groupby_ok and_then_def reset_index_name_def reset_index_def
      size_of_def count_rows_def comp_def)

lemma key_of_count_rows:
  assumes "distinct gb"
  shows "map (key_of gb) (count_rows gb rs) = group_keys gb rs"
proof -
  have "\<And>k. k \<in> set (group_keys gb rs) \<Longrightarrow>
     key_of gb (zip gb k @ [(''Results Count'', Num (of_nat (length (group_rows gb rs k))))]) = k"
    using assms by (simp add: key_of_zip length_group_key)
  then show ?thesis
    unfolding count_rows_def by (simp add: map_idI)
qed

lemma count_row_cell:
  assumes "distinct gb" "''Results Count'' \<notin> set gb" "r \<in> set (count_rows gb rs)"
  shows "cell_at r ''Results Count''
         = Num (of_nat (length (filter (\<lambda>i. key_of gb i = key_of gb r) rs)))"
proof -
  from assms(3) obtain k where k: "k \<in> set (group_keys gb rs)"
    and r: "r = zip gb k @ [(''Results Count'', Num (of_nat (length (group_rows gb rs k))))]"
    by (auto simp: count_rows_def)
  have "key_of gb r = k"
    using assms(1) k r by (simp add: key_of_zip length_group_key)
  moreover have "cell_at r ''Results Count'' = Num (of_nat (length (group_rows gb rs k)))"
    using assms(2) r by (simp add: cell_at_zip_append) (simp add: cell_at_def)
  ultimately show ?thesis by (simp add: group_rows_def)
qed

lemma results_count_count_row:
  "''Results Count'' \<notin> set gb \<Longrightarrow>
   results_count (zip gb k @ [(''Results Count'', Num n)]) = n"
  by (simp add: results_count_def cell_at_zip_append) (simp add: cell_at_def)

lemma sum_list_of_nat:
  "sum_list (map (\<lambda>k. (of_nat (g k) :: rat)) ks) = of_nat (sum_list (map g ks))"
  by (induction ks) simp_all

lemma sum_count_rows:
  assumes "''Results Count'' \<notin> set gb"
  shows "sum_list (map results_count (count_rows gb rs))
         = of_nat (length (filter (\<lambda>i. \<not> has_na (key_of gb i)) rs))"
proof -
  have "sum_list (map results_count (count_rows gb rs))
      = sum_list (map (\<lambda>k. of_nat (length (filter (\<lambda>i. key_of gb i = k) rs))) (group_keys gb rs))"
    using assms by (simp add: count_rows_def comp_def results_count_count_row group_rows_def)
  also have "\<dots> = of_nat (sum_list (map (\<lambda>k. length (filter (\<lambda>i. key_of gb i = k) rs)) (group_keys gb rs)))"
    by (rule sum_list_of_nat)
  also have "\<dots> = of_nat (length (filter (\<lambda>i. key_of gb i \<in> set (group_keys gb rs)) rs))"
    by (simp add: sum_group_sizes distinct_group_keys)
  also have "filter (\<lambda>i. key_of gb i \<in> set (group_keys gb rs)) rs
           = filter (\<lambda>i. \<not> has_na (key_of gb i)) rs"
    by (rule filter_cong) (auto simp: set_group_keys)
  finally show ?thesis .
qed

section \<open>C5: counting per group\<close>

text \<open>
  C5.  For every table and every non-empty, duplicate-free list of grouping fields that
  are columns of the table (and do not name the count column itself), aggregating with the
  y axis ``Results Count'' succeeds and emits the grouping columns and the count column,
  exactly one row for each distinct combination of key values that has no missing value;
  the count of a row is the number of input rows with that key; and the counts add up to
  the number of input rows whose grouping cells are all present, which is the number of
  all input rows when no grouping cell is missing.
\<close>

theorem results_count_per_group:
  assumes "group_by \<noteq> []" and "distinct group_by"
    and "set group_by \<subseteq> set (columns df)" and "''Results Count'' \<notin> set group_by"
  shows "\<exists>out. aggregate df group_by ''Results Count'' = Inr out
      \<and> columns out = group_by @ [''Results Count'']
      \<and> distinct (map (key_of group_by) (rows out))
      \<and> set (map (key_of group_by) (rows out))
          = {k. (\<exists>i \<in> set (rows df). key_of group_by i = k) \<and> \<not> has_na k}
      \<and> (\<forall>r \<in> set (rows out). cell_at r ''Results Count''
            = Num (of_nat (length (filter (\<lambda>i. key_of group_by i = key_of group_by r) (rows df)))))
      \<and> sum_list (map results_count (rows out))
          = of_nat (length (filter (\<lambda>i. \<not> has_na (key_of group_by i)) (rows df)))
      \<and> ((\<forall>i \<in> set (rows df). \<not> has_na (key_of group_by i))
            \<longrightarrow> sum_list (map results_count (rows out)) = of_nat (length (rows df)))"
proof -
  let ?out = "\<lparr>columns = group_by @ [''Results Count''], rows = count_rows group_by (rows df)\<rparr>"
  have agg: "aggregate df group_by ''Results Count'' = Inr ?out"
    using assms by (rule aggregate_count)
  have keys: "map (key_of group_by) (rows ?out) = group_keys group_by (rows df)"
    using assms(2) by (simp add: key_of_count_rows)
  have dist: "distinct (map (key_of group_by) (rows ?out))"
    unfolding keys by (rule distinct_group_keys)
  have cover: "set (map (key_of group_by) (rows ?out))
      = {k. (\<exists>i \<in> set (rows df). key_of group_by i = k) \<and> \<not> has_na k}"
    unfolding keys by (rule set_group_keys)
  have cells: "\<forall>r \<in> set (rows ?out). cell_at r ''Results Count''
      = Num (of_nat (length (filter (\<lambda>i. key_of group_by i = key_of group_by r) (rows df))))"
    using assms(2,4) by (simp add: count_row_cell)
  have total: "sum_list (map results_count (rows ?out))
      = of_nat (length (filter (\<lambda>i. \<not> has_na (key_of group_by i)) (rows df)))"
    using assms(4) by (simp add: sum_count_rows)
  have full: "(\<forall>i \<in> set (rows df). \<not> has_na (key_of group_by i))
      \<longrightarrow> sum_list (map results_count (rows ?out)) = of_nat (length (rows df))"
  proof
    assume "\<forall>i \<in> set (rows df). \<not> has_na (key_of group_by i)"
    then have "filter (\<lambda>i. \<not> has_na (key_of group_by i)) (rows df) = rows df"
      by (simp add: filter_id_conv)
    with total show "sum_list (map results_count (rows ?out)) = of_nat (length (rows df))"
      by simp
  qed
  have "columns ?out = group_by @ [''Results Count'']" by simp
  with agg dist cover cells total full show ?thesis by blast
qed


theorem results_count_per_group_witness:
  "[''Assay''] \<noteq> [] \<and> distinct [''Assay''] \<and> set [''Assay''] \<subseteq> set (columns two_samples)
   \<and> ''Results Count'' \<notin> set [''Assay'']
   \<and> (\<exists>out. aggregate two_samples [''Assay''] ''Results Count'' = Inr out
          \<and> columns out = [''Assay'', ''Results Count'']
          \<and> sum_list (map results_count (rows out)) = 2)"
proof -
  have h: "[''Assay''] \<noteq> []" "distinct [''Assay'']"
    "set [''Assay''] \<subseteq> set (columns two_samples)" "''Results Count'' \<notin> set [''Assay'']"
    by (simp_all add: two_samples_def)
  have n: "length (filter (\<lambda>i. \<not> has_na (key_of [''Assay''] i)) (rows two_samples)) = 2"
    by (simp add: two_samples_def key_of_def has_na_def cell_at_def)
  from results_count_per_group [OF h] obtain out where
    "aggregate two_samples [''Assay''] ''Results Count'' = Inr out"
    "columns out = [''Assay''] @ [''Results Count'']"
    "sum_list (map results_count (rows out))
       = of_nat (length (filter (\<lambda>i. \<not> has_na (key_of [''Assay''] i)) (rows two_samples)))"
    by blast
  with n h show ?thesis by auto
qed

text \<open>
  A row whose key cell is missing is in no group: the two-row table with one empty assay
  yields one group of count 1, so the counts do not add up to the number of rows.
\<close>

theorem results_count_skips_missing_key:
  "aggregate assay_missing [''Assay''] ''Results Count''
     = Inr \<lparr>columns = [''Assay'', ''Results Count''],
            rows = [[(''Assay'', Str ''A''), (''Results Count'', Num 1)]]\<rparr>
   \<and> sum_list (map results_count [[(''Assay'', Str ''A''), (''Results Count'', Num 1)]]) = 1
   \<and> length (rows assay_missing) = 2"
  by code_simp

section \<open>C9: the facet of the bar chart\<close>

lemma px_ok:
  "set ([x_axis, y_axis, color_by] @ (case fac of None \<Rightarrow> [] | Some f \<Rightarrow> [f])) \<subseteq> set (columns df) \<Longrightarrow>
   px k df x_axis y_axis color_by fac
     = Inr \<lparr>fig_kind = k, fig_data = df, fig_x = x_axis, fig_y = y_axis, fig_color = color_by,
            fig_facet_col = fac, fig_title = None, fig_height = None\<rparr>"
proof -
  assume "set ([x_axis, y_axis, color_by] @ (case fac of None \<Rightarrow> [] | Some f \<Rightarrow> [f])) \<subseteq> set (columns df)"
  then have "filter (\<lambda>c. c \<notin> set (columns df))
      ([x_axis, y_axis, color_by] @ (case fac of None \<Rightarrow> [] | Some f \<Rightarrow> [f])) = []"
    unfolding filter_empty_conv by blast
  then show ?thesis unfolding px_def by simp
qed

lemma px_Inr:
  assumes "px k df x_axis y_axis color_by fac = Inr fig"
  shows "fig = \<lparr>fig_kind = k, fig_data = df, fig_x = x_axis, fig_y = y_axis, fig_color = color_by,
            fig_facet_col = fac, fig_title = None, fig_height = None\<rparr>"
proof (cases "filter (\<lambda>c. c \<notin> set (columns df))
      ([x_axis, y_axis, color_by] @ (case fac of None \<Rightarrow> [] | Some f \<Rightarrow> [f]))")
  case Nil
  with assms show ?thesis unfolding px_def by (simp only: list.case sum.inject)
next
  case (Cons c cs)
  with assms show ?thesis unfolding px_def by (simp only: list.case sum.distinct)
qed


text \<open>
  C9.  For every table and every x axis, a figure that \<^verbatim>\<open>bar_chart\<close> builds is
  faceted by ``Assay'' if and only if the x axis is not ``Assay'', and has no facet when the
  x axis is ``Assay''.  The figure is built whenever the x, y and colour columns (and the
  facet column, when one is used) are columns of the table.
\<close>

theorem bar_chart_facet:
  "(\<forall>fig. bar_chart df x_axis y_axis color_by = Inr fig \<longrightarrow>
      ((fig_facet_col fig = Some ''Assay'') = (x_axis \<noteq> ''Assay''))
      \<and> ((fig_facet_col fig = None) = (x_axis = ''Assay'')))
   \<and> (set [x_axis, y_axis, color_by] \<subseteq> set (columns df)
        \<and> (x_axis \<noteq> ''Assay'' \<longrightarrow> ''Assay'' \<in> set (columns df))
      \<longrightarrow> (\<exists>fig. bar_chart df x_axis y_axis color_by = Inr fig
             \<and> fig_kind fig = Bar \<and> fig_data fig = df \<and> fig_x fig = x_axis))"
proof (intro conjI allI impI)
  fix fig
  assume "bar_chart df x_axis y_axis color_by = Inr fig"
  then have "px Bar df x_axis y_axis color_by
      (if x_axis \<noteq> ''Assay'' then Some ''Assay'' else None) = Inr fig"
    unfolding bar_chart_def Let_def .
  from px_Inr [OF this]
  have "fig_facet_col fig = (if x_axis \<noteq> ''Assay'' then Some ''Assay'' else None)"
    by simp
  then show "(fig_facet_col fig = Some ''Assay'') = (x_axis \<noteq> ''Assay'')"
    and "(fig_facet_col fig = None) = (x_axis = ''Assay'')"
    by simp_all
next
  assume a: "set [x_axis, y_axis, color_by] \<subseteq> set (columns df)
        \<and> (x_axis \<noteq> ''Assay'' \<longrightarrow> ''Assay'' \<in> set (columns df))"
  let ?fac = "if x_axis \<noteq> ''Assay'' then Some ''Assay'' else None"
  have "set ([x_axis, y_axis, color_by] @ (case ?fac of None \<Rightarrow> [] | Some f \<Rightarrow> [f])) \<subseteq> set (columns df)"
    using a by auto
  then have "bar_chart df x_axis y_axis color_by
      = Inr \<lparr>fig_kind = Bar, fig_data = df, fig_x = x_axis, fig_y = y_axis, fig_color = color_by,
            fig_facet_col = ?fac, fig_title = None, fig_height = None\<rparr>"
    unfolding bar_chart_def Let_def by (rule px_ok)
  then show "\<exists>fig. bar_chart df x_axis y_axis color_by = Inr fig
             \<and> fig_kind fig = Bar \<and> fig_data fig = df \<and> fig_x fig = x_axis"
    by simp
qed

theorem bar_chart_facet_witness:
  "(\<exists>fig. bar_chart two_samples ''Testdate'' ''GMT'' ''Result'' = Inr fig
       \<and> fig_facet_col fig = Some ''Assay'')
   \<and> (\<exists>fig. bar_chart two_samples ''Assay'' ''GMT'' ''Result'' = Inr fig
       \<and> fig_facet_col fig = None)"
proof -
  have c: "set [''Testdate'', ''GMT'', ''Result''] \<subseteq> set (columns two_samples)
        \<and> (''Testdate'' \<noteq> ''Assay'' \<longrightarrow> ''Assay'' \<in> set (columns two_samples))"
    and d: "set [''Assay'', ''GMT'', ''Result''] \<subseteq> set (columns two_samples)
        \<and> (''Assay'' \<noteq> ''Assay'' \<longrightarrow> ''Assay'' \<in> set (columns two_samples))"
    by (simp_all add: two_samples_def)
  from bar_chart_facet [of two_samples "''Testdate''" "''GMT''" "''Result''"] c
  have 1: "\<exists>fig. bar_chart two_samples ''Testdate'' ''GMT'' ''Result'' = Inr fig
       \<and> fig_facet_col fig = Some ''Assay''"
    by blast
  from bar_chart_facet [of two_samples "''Assay''" "''GMT''" "''Result''"] d
  have 2: "\<exists>fig. bar_chart two_samples ''Assay'' ''GMT'' ''Result'' = Inr fig
       \<and> fig_facet_col fig = None"
    by blast
  from 1 2 show ?thesis by simp
qed

section \<open>C3: the table of the session\<close>

lemma upload_step_loaded:
  "loaded_data st = Some (Some df) \<Longrightarrow> fst (upload_step strptime st f) = st"
  by (cases f) (simp_all add: upload_step_def)

lemma script_state: "fst (script strptime u st f) = fst (upload_step strptime st f)"
  unfolding script_def
  by (cases "upload_step strptime st f") (auto split: sum.splits option.splits)

lemma script_loaded:
  "loaded_data st = Some (Some df) \<Longrightarrow> fst (script strptime u st f) = st"
  by (simp add: script_state upload_step_loaded)

lemma run_session_loaded:
  "loaded_data st = Some (Some df) \<Longrightarrow> run_session strptime st evs = st"
proof (induction evs)
  case Nil
  show ?case by simp
next
  case (Cons ev evs)
  obtain u f where ev: "ev = (u, f)" by (cases ev)
  from Cons show ?case by (simp add: ev script_loaded)
qed

lemma run_session_append:
  "run_session strptime st (evs @ evs') = run_session strptime (run_session strptime st evs) evs'"
proof (induction evs arbitrary: st)
  case Nil
  show ?case by simp
next
  case (Cons ev evs)
  obtain u f where "ev = (u, f)" by (cases ev)
  with Cons show ?case by simp
qed

text \<open>
  C3.  Within a session, once a table has been loaded, every later run of the script,
  whatever file the uploader holds and whatever the widgets hold, leaves the stored table
  as it is: a run on a state with a loaded table returns that state, so the table of the
  session is set at most once.
\<close>

theorem loaded_table_is_kept:
  "loaded_data (run_session strptime st evs) = Some (Some df) \<Longrightarrow>
   fst (script strptime u (run_session strptime st evs) f) = run_session strptime st evs
   \<and> loaded_data (run_session strptime st (evs @ evs')) = Some (Some df)"
  by (simp add: run_session_append run_session_loaded script_loaded)

lemma load_first: "load_data dmy first_file = Inr first_table"
  by code_simp

theorem loaded_table_is_kept_witness:
  "loaded_data (run_session dmy \<lparr>loaded_data = None\<rparr> [(untouched, Some first_file)]) = Some (Some first_table)
   \<and> loaded_data (run_session dmy \<lparr>loaded_data = None\<rparr>
         ([(untouched, Some first_file)] @ [(untouched, Some second_file), (untouched, None)]))
       = Some (Some first_table)"
proof -
  have 1: "loaded_data (run_session dmy \<lparr>loaded_data = None\<rparr> [(untouched, Some first_file)])
      = Some (Some first_table)"
    by (simp add: script_state upload_step_def load_first)
  from loaded_table_is_kept [OF 1] 1 show ?thesis by blast
qed

section \<open>C7: no grouping, no aggregation\<close>

lemma create_chart_body_shown:
  assumes "checkbox u (''Show '' @ lower chart) True"
    and "select_param u (lower chart) x y = Inr (x_axis, y_axis)"
    and "select_grouping u (lower chart) g c y_axis = Inr (group_by', color_by')"
    and "date_slider u df (lower chart) x_axis = Inr (lo, hi)"
    and "filter_by_date df lo hi = Inr df1"
  shows "create_chart_body u df chart x y g c chart_func =
     and_then (aggregate df1 group_by' y_axis) (\<lambda>df2.
     and_then (chart_func df2 x_axis y_axis color_by') (\<lambda>fig.
     Inr (PlotlyChart (update_layout fig
            (text_input u (chart @ '': '' @ y_axis @ '' vs. '' @ x_axis) (lower chart @ ''title''))
            (slider u 500 (lower chart @ ''height''))))))"
  using assms by (simp add: create_chart_body_def and_then_def)

text \<open>
  C7.  For every table and every y axis, ``Results Count'' included, the aggregation step
  with an empty grouping list returns the table it was given, in the pre-defined and in the
  custom flow: no count column is made and no column is replaced.  So in a chart block
  whose grouping selection is empty the chart constructor is called with the date-filtered
  table itself.
\<close>

theorem empty_grouping_is_identity:
  "aggregate df [] y_axis = Inr df
   \<and> custom_aggregate df [] y_axis = Inr (df, y_axis)
   \<and> (checkbox u (''Show '' @ lower chart) True
        \<and> select_param u (lower chart) x y = Inr (x_axis, y_axis)
        \<and> select_grouping u (lower chart) g c y_axis = Inr ([], color_by)
        \<and> date_slider u df (lower chart) x_axis = Inr (lo, hi)
        \<and> filter_by_date df lo hi = Inr df1
      \<longrightarrow> create_chart_body u df chart x y g c chart_func =
            and_then (chart_func df1 x_axis y_axis color_by) (\<lambda>fig.
            Inr (PlotlyChart (update_layout fig
                   (text_input u (chart @ '': '' @ y_axis @ '' vs. '' @ x_axis) (lower chart @ ''title''))
                   (slider u 500 (lower chart @ ''height''))))))"
proof (intro conjI impI)
  show "aggregate df [] y_axis = Inr df"
    by (simp add: aggregate_def)
  show "custom_aggregate df [] y_axis = Inr (df, y_axis)"
    by (simp add: custom_aggregate_def)
next
  assume a: "checkbox u (''Show '' @ lower chart) True
        \<and> select_param u (lower chart) x y = Inr (x_axis, y_axis)
        \<and> select_grouping u (lower chart) g c y_axis = Inr ([], color_by)
        \<and> date_slider u df (lower chart) x_axis = Inr (lo, hi)
        \<and> filter_by_date df lo hi = Inr df1"
  have "aggregate df1 [] y_axis = Inr df1"
    by (simp add: aggregate_def)
  then show "create_chart_body u df chart x y g c chart_func =
            and_then (chart_func df1 x_axis y_axis color_by) (\<lambda>fig.
            Inr (PlotlyChart (update_layout fig
                   (text_input u (chart @ '': '' @ y_axis @ '' vs. '' @ x_axis) (lower chart @ ''title''))
                   (slider u 500 (lower chart @ ''height'')))))"
    using a create_chart_body_shown [of u chart x y x_axis y_axis g c "[]" color_by df lo hi df1 chart_func]
    by (simp add: and_then_def)
qed

lemma lower_box_plot: "lower ''Box plot'' = ''box plot''"
  by (simp add: lower_def)

lemma untouched_states:
  "checkbox_state untouched k = None" "selectbox_state untouched k = None"
  "multiselect_state untouched k = None" "date_range_state untouched k = None"
  "text_input_state untouched k = None" "slider_state untouched k = None"
  by (simp_all add: untouched_def)

lemma two_samples_bounds:
  "x_axis \<noteq> ''Testdate'' \<Longrightarrow> date_slider u two_samples key x_axis = Inr (Some 19358, Some 19358)"
  by (simp add: date_slider_def datetime_column_def getitem_def column_values_def two_samples_def
      and_then_def cell_at_def stamp_min_def stamp_max_def date_def)

lemma two_samples_bounds_untouched:
  "date_slider untouched two_samples key x_axis = Inr (Some 19358, Some 19358)"
  by (simp add: date_slider_def datetime_column_def getitem_def column_values_def two_samples_def
      and_then_def cell_at_def stamp_min_def stamp_max_def date_def date_range_slider_def
      untouched_states Let_def)

lemma two_samples_filter:
  "filter_by_date two_samples (Some 19358) (Some 19358) = Inr two_samples"
  by (simp add: filter_by_date_def datetime_column_def getitem_def column_values_def
      two_samples_def and_then_def cell_at_def between_def date_def)

theorem empty_grouping_is_identity_witness:
  "aggregate two_samples [] ''Results Count'' = Inr two_samples
   \<and> checkbox untouched (''Show '' @ lower ''Box plot'') True
   \<and> select_param untouched (lower ''Box plot'') 2 3 = Inr (''Testdate'', ''GMT'')
   \<and> select_grouping untouched (lower ''Box plot'') None 0 ''GMT'' = Inr ([], ''Assay'')
   \<and> date_slider untouched two_samples (lower ''Box plot'') ''Testdate'' = Inr (Some 19358, Some 19358)
   \<and> filter_by_date two_samples (Some 19358) (Some 19358) = Inr two_samples
   \<and> create_chart_body untouched two_samples ''Box plot'' 2 3 None 0 box_plot =
       and_then (box_plot two_samples ''Testdate'' ''GMT'' ''Assay'') (\<lambda>fig.
         Inr (PlotlyChart (update_layout fig ''Box plot: GMT vs. Testdate'' 500)))"
proof -
  have h: "checkbox untouched (''Show '' @ lower ''Box plot'') True
     \<and> select_param untouched (lower ''Box plot'') 2 3 = Inr (''Testdate'', ''GMT'')
     \<and> select_grouping untouched (lower ''Box plot'') None 0 ''GMT'' = Inr ([], ''Assay'')
     \<and> date_slider untouched two_samples (lower ''Box plot'') ''Testdate'' = Inr (Some 19358, Some 19358)
     \<and> filter_by_date two_samples (Some 19358) (Some 19358) = Inr two_samples"
    by (simp add: checkbox_def select_param_def select_grouping_def selectbox_def multiselect_def
        grouping_options_def and_then_def untouched_states two_samples_bounds_untouched
        two_samples_filter)
  have t: "text_input untouched (''Box plot'' @ '': '' @ ''GMT'' @ '' vs. '' @ ''Testdate'')
             (lower ''Box plot'' @ ''title'') = ''Box plot: GMT vs. Testdate''"
    and s: "slider untouched 500 (lower ''Box plot'' @ ''height'') = 500"
    by (simp_all add: text_input_def slider_def untouched_states)
  from empty_grouping_is_identity [of two_samples "''Results Count''"]
  have 1: "aggregate two_samples [] ''Results Count'' = Inr two_samples" by blast
  from empty_grouping_is_identity [where df = two_samples and y_axis = "''GMT''"
      and u = untouched and chart = "''Box plot''" and x = 2 and y = 3 and x_axis = "''Testdate''"
      and g = None and c = 0 and color_by = "''Assay''" and lo = "Some 19358"
      and hi = "Some 19358" and ?df1.0 = two_samples and chart_func = box_plot] h
  have 2: "create_chart_body untouched two_samples ''Box plot'' 2 3 None 0 box_plot =
       and_then (box_plot two_samples ''Testdate'' ''GMT'' ''Assay'') (\<lambda>fig.
         Inr (PlotlyChart (update_layout fig
            (text_input untouched (''Box plot'' @ '': '' @ ''GMT'' @ '' vs. '' @ ''Testdate'')
               (lower ''Box plot'' @ ''title''))
            (slider untouched 500 (lower ''Box plot'' @ ''height'')))))"
    by blast
  from 1 2 h show ?thesis unfolding t s by blast
qed

section \<open>C1: the grouping options and the grouping selection\<close>







section \<open>Facts about the mean of groups\<close>













section \<open>C6: the mean per group\<close>







section \<open>C2: the aggregation of the custom chart\<close>






section \<open>C4: failures stay inside the chart block\<close>

lemma eo_Inr [simp]: "exceptions_only (Inr v)"
  by (simp add: exceptions_only_def)

lemma eo_Inl [simp]: "exceptions_only (Inl e) = is_Exception e"
  by (simp add: exceptions_only_def)

lemma eo_and_then:
  assumes "exceptions_only m" and "\<And>v. m = Inr v \<Longrightarrow> exceptions_only (f v)"
  shows "exceptions_only (and_then m f)"
  using assms by (cases m) (simp_all add: and_then_def)

lemma eo_first_missing:
  assumes "\<And>c. is_Exception (err c)"
  shows "exceptions_only (case xs of [] \<Rightarrow> Inr v | c # cs \<Rightarrow> Inl (err c))"
  using assms by (cases xs) simp_all

lemma eo_selectbox: "exceptions_only (selectbox u options index key)"
  by (simp add: selectbox_def)

lemma eo_multiselect: "exceptions_only (multiselect u options dflt key)"
  by (simp add: multiselect_def Let_def)

lemma eo_date_range_slider: "exceptions_only (date_range_slider u lo hi key)"
  by (simp add: date_range_slider_def split: option.splits prod.splits)

lemma eo_getitem: "exceptions_only (getitem df c)"
  by (simp add: getitem_def)

lemma eo_datetime_column: "exceptions_only (datetime_column df c)"
  unfolding datetime_column_def by (rule eo_and_then) (simp_all add: eo_getitem)

lemma eo_select_param: "exceptions_only (select_param u key x y)"
  unfolding select_param_def by (intro eo_and_then eo_selectbox eo_Inr)

lemma eo_select_grouping: "exceptions_only (select_grouping u key grp color y_axis)"
  unfolding select_grouping_def by (intro eo_and_then eo_selectbox eo_multiselect eo_Inr)

lemma eo_date_slider: "exceptions_only (date_slider u df key x_axis)"
  unfolding date_slider_def
  by (rule eo_and_then) (simp_all add: eo_datetime_column eo_date_range_slider Let_def)

lemma eo_filter_by_date: "exceptions_only (filter_by_date df lo hi)"
  unfolding filter_by_date_def by (rule eo_and_then) (simp_all add: eo_datetime_column)

lemma eo_groupby: "exceptions_only (groupby df gb)"
  unfolding groupby_def by (cases "filter (\<lambda>c. c \<notin> set (columns df)) gb") simp_all

lemma eo_reset_index: "exceptions_only (reset_index ix)"
  by (simp add: reset_index_def)

lemma eo_agg_mean: "exceptions_only (agg_mean g cs)"
  unfolding agg_mean_def
  by (cases "filter (\<lambda>c. c \<notin> set (columns (frame g))) cs";
      cases "filter (\<lambda>c. \<not> numeric_column (frame g) c) cs") simp_all

lemma eo_aggregate: "exceptions_only (aggregate df group_by y_axis)"
  unfolding aggregate_def reset_index_name_def
  by (auto intro!: eo_and_then eo_groupby eo_agg_mean eo_reset_index)

lemma eo_custom_aggregate: "exceptions_only (custom_aggregate df group_by y_axis)"
  unfolding custom_aggregate_def reset_index_name_def
  by (auto intro!: eo_and_then eo_groupby eo_agg_mean eo_reset_index)

lemma eo_px: "exceptions_only (px k df x_axis y_axis color_by fac)"
  unfolding px_def
  by (cases "filter (\<lambda>c. c \<notin> set (columns df))
        ([x_axis, y_axis, color_by] @ (case fac of None \<Rightarrow> [] | Some f \<Rightarrow> [f]))") simp_all

lemma eo_chart_functions:
  "exceptions_only (line_chart df x_axis y_axis color_by)"
  "exceptions_only (scatter_plot df x_axis y_axis color_by)"
  "exceptions_only (box_plot df x_axis y_axis color_by)"
  "exceptions_only (violin_plot df x_axis y_axis color_by)"
  "exceptions_only (bar_chart df x_axis y_axis color_by)"
  by (simp_all add: line_chart_def scatter_plot_def box_plot_def violin_plot_def bar_chart_def
      Let_def eo_px del: eo_Inl)

lemma eo_create_chart_body:
  assumes "\<And>d a b c. exceptions_only (chart_func d a b c)"
  shows "exceptions_only (create_chart_body u df chart x y group_by color_by chart_func)"
  unfolding create_chart_body_def Let_def
  by (auto intro!: eo_and_then eo_select_param eo_select_grouping eo_date_slider
      eo_filter_by_date eo_aggregate assms)

lemma eo_custom_chart_body: "exceptions_only (custom_chart_body u df)"
  unfolding custom_chart_body_def Let_def
  by (auto intro!: eo_and_then eo_selectbox eo_multiselect eo_date_slider
      eo_filter_by_date eo_custom_aggregate eo_chart_functions)

lemma create_chart_caught:
  assumes "exceptions_only (create_chart_body u df chart x y group_by color_by chart_func)"
  shows "create_chart u df chart x y group_by color_by chart_func
     = Inr (case create_chart_body u df chart x y group_by color_by chart_func of
              Inl e \<Rightarrow> Warning ''Sorry, an error is encountered. Please check your inputs.''
            | Inr b \<Rightarrow> b)"
  using assms unfolding create_chart_def
  by (cases "create_chart_body u df chart x y group_by color_by chart_func") simp_all

lemma custom_chart_caught:
  "custom_chart u df
     = Inr (case custom_chart_body u df of
              Inl e \<Rightarrow> Warning ''Sorry, the chart cannot be generated. Please check your inputs.''
            | Inr b \<Rightarrow> b)"
  using eo_custom_chart_body [of u df] unfolding custom_chart_def
  by (cases "custom_chart_body u df") simp_all

text \<open>
  C4.  Each chart block, pre-defined or custom, returns normally whatever its widgets and
  the table hold: when parameter selection, the date range, date filtering, aggregation or
  the chart constructor raises, the block yields its generic warning in place of a figure,
  and otherwise what its body yields.  So on a render pass whose metrics are computed,
  the page holds the metrics and, for each of the six blocks, exactly what that block
  yields on its own, whether or not another block has failed.
\<close>

theorem chart_block_failures_are_local:
  "(\<forall>f \<in> {box_plot, violin_plot, line_chart, bar_chart, scatter_plot}.
      create_chart u df chart x y group_by color_by f
        = Inr (case create_chart_body u df chart x y group_by color_by f of
                 Inl e \<Rightarrow> Warning ''Sorry, an error is encountered. Please check your inputs.''
               | Inr b \<Rightarrow> b))
   \<and> custom_chart u df
        = Inr (case custom_chart_body u df of
                 Inl e \<Rightarrow> Warning ''Sorry, the chart cannot be generated. Please check your inputs.''
               | Inr b \<Rightarrow> b)
   \<and> (\<forall>ms. metrics df = Inr ms \<longrightarrow>
         (\<exists>b1 b2 b3 b4 b5 b6.
            create_chart u df ''Box plot'' 2 3 None 0 box_plot = Inr b1
            \<and> create_chart u df ''Violin plot'' 2 3 None 0 violin_plot = Inr b2
            \<and> create_chart u df ''Line chart'' 2 3 (Some [''Testdate'', ''GMT'', ''Assay'']) 0 line_chart
                = Inr b3
            \<and> create_chart u df ''Bar chart'' 2 4 (Some [''Assay'', ''Testdate'', ''Result'']) 1 bar_chart
                = Inr b4
            \<and> create_chart u df ''Scatter plot'' 0 3 (Some [''Testdate'', ''GMT'', ''Assay'']) 0
                  scatter_plot = Inr b5
            \<and> custom_chart u df = Inr b6
            \<and> dashboard u df
                = Inr (Toast ''Loading dashboard...'' # ms @ map Block [b1, b2, b3, b4, b5, b6])))"
proof (intro conjI ballI allI impI)
  fix f
  assume "f \<in> {box_plot, violin_plot, line_chart, bar_chart, scatter_plot}"
  then have "\<And>d a b c. exceptions_only (f d a b c)"
    using eo_chart_functions by auto
  then have "exceptions_only (create_chart_body u df chart x y group_by color_by f)"
    by (rule eo_create_chart_body)
  then show "create_chart u df chart x y group_by color_by f
        = Inr (case create_chart_body u df chart x y group_by color_by f of
                 Inl e \<Rightarrow> Warning ''Sorry, an error is encountered. Please check your inputs.''
               | Inr b \<Rightarrow> b)"
    by (rule create_chart_caught)
next
  show "custom_chart u df
        = Inr (case custom_chart_body u df of
                 Inl e \<Rightarrow> Warning ''Sorry, the chart cannot be generated. Please check your inputs.''
               | Inr b \<Rightarrow> b)"
    by (rule custom_chart_caught)
next
  fix ms
  assume ms: "metrics df = Inr ms"
  have blocks:
    "\<exists>b. create_chart u df ''Box plot'' 2 3 None 0 box_plot = Inr b"
    "\<exists>b. create_chart u df ''Violin plot'' 2 3 None 0 violin_plot = Inr b"
    "\<exists>b. create_chart u df ''Line chart'' 2 3 (Some [''Testdate'', ''GMT'', ''Assay'']) 0 line_chart
        = Inr b"
    "\<exists>b. create_chart u df ''Bar chart'' 2 4 (Some [''Assay'', ''Testdate'', ''Result'']) 1 bar_chart
        = Inr b"
    "\<exists>b. create_chart u df ''Scatter plot'' 0 3 (Some [''Testdate'', ''GMT'', ''Assay'']) 0
          scatter_plot = Inr b"
    "\<exists>b. custom_chart u df = Inr b"
    by (simp_all only: create_chart_caught [OF eo_create_chart_body] eo_chart_functions
        custom_chart_caught) blast+
  then obtain b1 b2 b3 b4 b5 b6 where b:
    "create_chart u df ''Box plot'' 2 3 None 0 box_plot = Inr b1"
    "create_chart u df ''Violin plot'' 2 3 None 0 violin_plot = Inr b2"
    "create_chart u df ''Line chart'' 2 3 (Some [''Testdate'', ''GMT'', ''Assay'']) 0 line_chart
        = Inr b3"
    "create_chart u df ''Bar chart'' 2 4 (Some [''Assay'', ''Testdate'', ''Result'']) 1 bar_chart
        = Inr b4"
    "create_chart u df ''Scatter plot'' 0 3 (Some [''Testdate'', ''GMT'', ''Assay'']) 0
          scatter_plot = Inr b5"
    "custom_chart u df = Inr b6"
    by blast
  have "dashboard u df
      = Inr (Toast ''Loading dashboard...'' # ms @ map Block [b1, b2, b3, b4, b5, b6])"
    unfolding dashboard_def ms b and_then_def by simp
  with b show "\<exists>b1 b2 b3 b4 b5 b6.
            create_chart u df ''Box plot'' 2 3 None 0 box_plot = Inr b1
            \<and> create_chart u df ''Violin plot'' 2 3 None 0 violin_plot = Inr b2
            \<and> create_chart u df ''Line chart'' 2 3 (Some [''Testdate'', ''GMT'', ''Assay'']) 0 line_chart
                = Inr b3
            \<and> create_chart u df ''Bar chart'' 2 4 (Some [''Assay'', ''Testdate'', ''Result'']) 1 bar_chart
                = Inr b4
            \<and> create_chart u df ''Scatter plot'' 0 3 (Some [''Testdate'', ''GMT'', ''Assay'']) 0
                  scatter_plot = Inr b5
            \<and> custom_chart u df = Inr b6
            \<and> dashboard u df
                = Inr (Toast ''Loading dashboard...'' # ms @ map Block [b1, b2, b3, b4, b5, b6])"
    by (intro exI conjI)
qed

lemma two_samples_metrics:
  "metrics two_samples
     = Inr [Metric ''Total Number of Samples'' (Num 2), Metric ''Number of Assays'' (Num 1),
            Metric ''Minimum GMT'' (Num 10), Metric ''Maximum GMT'' (Num 20)]"
  by code_simp

lemma line_by_assay_line_chart:
  "create_chart line_by_assay two_samples ''Line chart'' 2 3 (Some [''Testdate'', ''GMT'', ''Assay''])
     0 line_chart
     = Inr (Warning ''Sorry, an error is encountered. Please check your inputs.'')"
  by code_simp

lemma line_by_assay_custom: "custom_chart line_by_assay two_samples = Inr NoChart"
  by code_simp

lemma line_by_assay_other_blocks:
  "case create_chart line_by_assay two_samples ''Box plot'' 2 3 None 0 box_plot of
     Inr (PlotlyChart fig) \<Rightarrow> True | _ \<Rightarrow> False"
  "case create_chart line_by_assay two_samples ''Violin plot'' 2 3 None 0 violin_plot of
     Inr (PlotlyChart fig) \<Rightarrow> True | _ \<Rightarrow> False"
  "case create_chart line_by_assay two_samples ''Bar chart'' 2 4
          (Some [''Assay'', ''Testdate'', ''Result'']) 1 bar_chart of
     Inr (PlotlyChart fig) \<Rightarrow> True | _ \<Rightarrow> False"
  "case create_chart line_by_assay two_samples ''Scatter plot'' 0 3
          (Some [''Testdate'', ''GMT'', ''Assay'']) 0 scatter_plot of
     Inr (PlotlyChart fig) \<Rightarrow> True | _ \<Rightarrow> False"
  by code_simp+

lemma is_chart: "(case Inr b of Inr (PlotlyChart fig) \<Rightarrow> True | _ \<Rightarrow> False) \<Longrightarrow> \<exists>fig. b = PlotlyChart fig"
  by (cases b) simp_all

theorem chart_block_failures_are_local_witness:
  "line_chart \<in> {box_plot, violin_plot, line_chart, bar_chart, scatter_plot}
   \<and> metrics two_samples
       = Inr [Metric ''Total Number of Samples'' (Num 2), Metric ''Number of Assays'' (Num 1),
              Metric ''Minimum GMT'' (Num 10), Metric ''Maximum GMT'' (Num 20)]
   \<and> create_chart_body line_by_assay two_samples ''Line chart'' 2 3
         (Some [''Testdate'', ''GMT'', ''Assay'']) 0 line_chart = Inl (ValueError ''Testdate'')
   \<and> create_chart line_by_assay two_samples ''Line chart'' 2 3
         (Some [''Testdate'', ''GMT'', ''Assay'']) 0 line_chart
       = Inr (Warning ''Sorry, an error is encountered. Please check your inputs.'')
   \<and> (\<exists>f1 f2 f4 f5.
         dashboard line_by_assay two_samples
           = Inr (Toast ''Loading dashboard...''
                  # [Metric ''Total Number of Samples'' (Num 2), Metric ''Number of Assays'' (Num 1),
                     Metric ''Minimum GMT'' (Num 10), Metric ''Maximum GMT'' (Num 20)]
                  @ map Block [PlotlyChart f1, PlotlyChart f2,
                      Warning ''Sorry, an error is encountered. Please check your inputs.'',
                      PlotlyChart f4, PlotlyChart f5, NoChart]))"
proof -
  have m: "line_chart \<in> {box_plot, violin_plot, line_chart, bar_chart, scatter_plot}" by simp
  have body: "create_chart_body line_by_assay two_samples ''Line chart'' 2 3
         (Some [''Testdate'', ''GMT'', ''Assay'']) 0 line_chart = Inl (ValueError ''Testdate'')"
    by code_simp
  note t = chart_block_failures_are_local [of line_by_assay two_samples "''Line chart''" 2 3
      "Some [''Testdate'', ''GMT'', ''Assay'']" 0]
  from t m have "create_chart line_by_assay two_samples ''Line chart'' 2 3
         (Some [''Testdate'', ''GMT'', ''Assay'']) 0 line_chart
       = Inr (case create_chart_body line_by_assay two_samples ''Line chart'' 2 3
                     (Some [''Testdate'', ''GMT'', ''Assay'']) 0 line_chart of
                 Inl e \<Rightarrow> Warning ''Sorry, an error is encountered. Please check your inputs.''
               | Inr b \<Rightarrow> b)"
    by blast
  then have warn: "create_chart line_by_assay two_samples ''Line chart'' 2 3
         (Some [''Testdate'', ''GMT'', ''Assay'']) 0 line_chart
       = Inr (Warning ''Sorry, an error is encountered. Please check your inputs.'')"
    unfolding body by simp
  from t two_samples_metrics obtain b1 b2 b3 b4 b5 b6 where b:
    "create_chart line_by_assay two_samples ''Box plot'' 2 3 None 0 box_plot = Inr b1"
    "create_chart line_by_assay two_samples ''Violin plot'' 2 3 None 0 violin_plot = Inr b2"
    "create_chart line_by_assay two_samples ''Line chart'' 2 3
       (Some [''Testdate'', ''GMT'', ''Assay'']) 0 line_chart = Inr b3"
    "create_chart line_by_assay two_samples ''Bar chart'' 2 4
       (Some [''Assay'', ''Testdate'', ''Result'']) 1 bar_chart = Inr b4"
    "create_chart line_by_assay two_samples ''Scatter plot'' 0 3
       (Some [''Testdate'', ''GMT'', ''Assay'']) 0 scatter_plot = Inr b5"
    "custom_chart line_by_assay two_samples = Inr b6"
    and page: "dashboard line_by_assay two_samples
      = Inr (Toast ''Loading dashboard...''
             # [Metric ''Total Number of Samples'' (Num 2), Metric ''Number of Assays'' (Num 1),
                Metric ''Minimum GMT'' (Num 10), Metric ''Maximum GMT'' (Num 20)]
             @ map Block [b1, b2, b3, b4, b5, b6])"
    by blast
  from b(3) warn have b3: "b3 = Warning ''Sorry, an error is encountered. Please check your inputs.''"
    by simp
  from b(6) line_by_assay_custom have b6: "b6 = NoChart" by simp
  note o = line_by_assay_other_blocks [unfolded b]
  from is_chart [OF o(1)] is_chart [OF o(2)] is_chart [OF o(3)] is_chart [OF o(4)]
  obtain f1 f2 f4 f5
    where f: "b1 = PlotlyChart f1" "b2 = PlotlyChart f2" "b4 = PlotlyChart f4" "b5 = PlotlyChart f5"
    by (elim exE)
  from page have "\<exists>f1 f2 f4 f5.
         dashboard line_by_assay two_samples
           = Inr (Toast ''Loading dashboard...''
                  # [Metric ''Total Number of Samples'' (Num 2), Metric ''Number of Assays'' (Num 1),
                     Metric ''Minimum GMT'' (Num 10), Metric ''Maximum GMT'' (Num 20)]
                  @ map Block [PlotlyChart f1, PlotlyChart f2,
                      Warning ''Sorry, an error is encountered. Please check your inputs.'',
                      PlotlyChart f4, PlotlyChart f5, NoChart])"
    unfolding b3 b6 f by (intro exI)
  with m two_samples_metrics body warn show ?thesis
    by (intro conjI)
qed

section \<open>C10: the columns of the aggregated table\<close>






section \<open>C8: the date filter\<close>

lemma fold_min_le: "fold min xs (a::int) \<le> a \<and> (\<forall>x \<in> set xs. fold min xs a \<le> x)"
proof (induction xs arbitrary: a)
  case Nil
  show ?case by simp
next
  case (Cons x xs)
  from Cons [of "min x a"] show ?case by auto
qed

lemma fold_max_ge: "a \<le> fold max xs (a::int) \<and> (\<forall>x \<in> set xs. x \<le> fold max xs a)"
proof (induction xs arbitrary: a)
  case Nil
  show ?case by simp
next
  case (Cons x xs)
  from Cons [of "max x a"] show ?case by auto
qed

lemma set_stamps: "set (stamps vs) = {s. Stamp s \<in> set vs}"
proof (induction vs)
  case Nil
  show ?case by simp
next
  case (Cons v vs)
  then show ?case by (cases v) auto
qed

lemma stamp_min_le:
  assumes "Stamp s \<in> set vs"
  shows "\<exists>m. stamp_min vs = Some m \<and> m \<le> s"
proof -
  from assms have s: "s \<in> set (stamps vs)" by (simp add: set_stamps)
  then obtain a as where c: "stamps vs = a # as" by (cases "stamps vs") auto
  with s fold_min_le [of as a] have "fold min as a \<le> s" by auto
  with c show ?thesis by (simp add: stamp_min_def)
qed

lemma stamp_max_ge:
  assumes "Stamp s \<in> set vs"
  shows "\<exists>m. stamp_max vs = Some m \<and> s \<le> m"
proof -
  from assms have s: "s \<in> set (stamps vs)" by (simp add: set_stamps)
  then obtain a as where c: "stamps vs = a # as" by (cases "stamps vs") auto
  with s fold_max_ge [of a as] have "s \<le> fold max as a" by auto
  with c show ?thesis by (simp add: stamp_max_def)
qed

lemma date_mono: "a \<le> b \<Longrightarrow> date a \<le> date b"
  by (simp add: date_def zdiv_mono1)

lemma datetime_column_Inr:
  "datetime_column df c = Inr vs \<Longrightarrow>
   c \<in> set (columns df) \<and> vs = column_values df c \<and> list_all is_datetime vs"
  unfolding datetime_column_def getitem_def and_then_def
  by (auto split: if_splits)

lemma datetime_column_ok:
  "c \<in> set (columns df) \<Longrightarrow> list_all is_datetime (column_values df c) \<Longrightarrow>
   datetime_column df c = Inr (column_values df c)"
  by (simp add: datetime_column_def getitem_def and_then_def)

lemma filter_by_date_Inr:
  assumes "filter_by_date df lo hi = Inr out"
  shows "out = df\<lparr>rows := filter (\<lambda>r. between (cell_at r ''Testdate'') lo hi) (rows df)\<rparr>
     \<and> ''Testdate'' \<in> set (columns df) \<and> list_all is_datetime (column_values df ''Testdate'')"
proof -
  from assms obtain vs where vs: "datetime_column df ''Testdate'' = Inr vs"
    unfolding filter_by_date_def and_then_def by (auto split: sum.splits)
  with assms have "out = df\<lparr>rows := filter (\<lambda>r. between (cell_at r ''Testdate'') lo hi) (rows df)\<rparr>"
    unfolding filter_by_date_def and_then_def by simp
  with datetime_column_Inr [OF vs] show ?thesis by blast
qed

lemma filter_by_date_ok:
  assumes "''Testdate'' \<in> set (columns df)" and "list_all is_datetime (column_values df ''Testdate'')"
  shows "filter_by_date df lo hi
     = Inr (df\<lparr>rows := filter (\<lambda>r. between (cell_at r ''Testdate'') lo hi) (rows df)\<rparr>)"
  using assms by (simp add: filter_by_date_def datetime_column_ok and_then_def)

lemma between_Some:
  "between v (Some a) (Some b) = (\<exists>s. v = Stamp s \<and> a \<le> date s \<and> date s \<le> b)"
  by (cases v) (simp_all add: between_def)

lemma between_own_bounds:
  assumes "v \<in> set vs" and "list_all is_datetime vs"
  shows "between v (map_option date (stamp_min vs)) (map_option date (stamp_max vs)) = (v \<noteq> NA)"
proof (cases v)
  case (Stamp s)
  with assms(1) stamp_min_le [of s vs] stamp_max_ge [of s vs]
  obtain m n where "stamp_min vs = Some m" "m \<le> s" "stamp_max vs = Some n" "s \<le> n"
    by auto
  with Stamp show ?thesis by (simp add: between_def date_mono)
next
  case NA
  then show ?thesis by (simp add: between_def)
next
  case (Num a)
  with assms show ?thesis by (auto simp: list_all_iff)
next
  case (Str t)
  with assms show ?thesis by (auto simp: list_all_iff)
qed

lemma date_slider_other_axis:
  assumes "x_axis \<noteq> ''Testdate''" and "date_slider u df key x_axis = Inr (lo, hi)"
  shows "''Testdate'' \<in> set (columns df) \<and> list_all is_datetime (column_values df ''Testdate'')
     \<and> lo = map_option date (stamp_min (column_values df ''Testdate''))
     \<and> hi = map_option date (stamp_max (column_values df ''Testdate''))"
proof -
  from assms(2) obtain vs where vs: "datetime_column df ''Testdate'' = Inr vs"
    unfolding date_slider_def and_then_def by (auto split: sum.splits)
  with assms have "lo = map_option date (stamp_min vs) \<and> hi = map_option date (stamp_max vs)"
    unfolding date_slider_def and_then_def by (simp add: Let_def)
  with datetime_column_Inr [OF vs] show ?thesis by blast
qed

lemma filter_wider:
  assumes "a' \<le> a" and "b \<le> b'"
  shows "filter (\<lambda>r. between (cell_at r c) (Some a') (Some b'))
           (filter (\<lambda>r. between (cell_at r c) (Some a) (Some b)) rs)
         = filter (\<lambda>r. between (cell_at r c) (Some a) (Some b)) rs"
proof -
  have "between v (Some a) (Some b) \<Longrightarrow> between v (Some a') (Some b')" for v
    using assms unfolding between_Some by auto
  then show ?thesis by (induction rs) auto
qed

lemma column_values_filtered:
  "list_all is_datetime (column_values df c) \<Longrightarrow>
   list_all is_datetime (column_values (df\<lparr>rows := filter P (rows df)\<rparr>) c)"
  by (auto simp: column_values_def list_all_iff)

text \<open>
  C8.  The date filter succeeds on every table whose Testdate column holds datetimes.  It
  keeps the columns and exactly the rows whose Testdate is present and has its calendar
  date, the timestamp without its time of day, in the inclusive range; filtering the
  result again by the same or a wider range returns the result unchanged.  The range used
  when the x axis is not the date column is the table's own minimum and maximum date;
  filtering by it keeps exactly the rows that have a Testdate, and so every row of a table
  in which no Testdate is missing.
\<close>

theorem date_filter:
  "(''Testdate'' \<in> set (columns df) \<and> list_all is_datetime (column_values df ''Testdate'')
      \<longrightarrow> (\<exists>out. filter_by_date df lo hi = Inr out))
   \<and> (\<forall>out. filter_by_date df (Some a) (Some b) = Inr out \<longrightarrow>
         columns out = columns df
         \<and> rows out = filter (\<lambda>r. \<exists>s. cell_at r ''Testdate'' = Stamp s
                                   \<and> a \<le> s div 86400 \<and> s div 86400 \<le> b) (rows df)
         \<and> (\<forall>a' b'. a' \<le> a \<and> b \<le> b' \<longrightarrow> filter_by_date out (Some a') (Some b') = Inr out))
   \<and> (\<forall>lo' hi'. x_axis \<noteq> ''Testdate'' \<and> date_slider u df key x_axis = Inr (lo', hi') \<longrightarrow>
         filter_by_date df lo' hi'
           = Inr (df\<lparr>rows := filter (\<lambda>r. cell_at r ''Testdate'' \<noteq> NA) (rows df)\<rparr>)
         \<and> ((\<forall>r \<in> set (rows df). cell_at r ''Testdate'' \<noteq> NA)
               \<longrightarrow> filter_by_date df lo' hi' = Inr df))"
proof (intro conjI allI impI)
  assume "''Testdate'' \<in> set (columns df) \<and> list_all is_datetime (column_values df ''Testdate'')"
  then show "\<exists>out. filter_by_date df lo hi = Inr out"
    by (simp add: filter_by_date_ok)
next
  fix out
  assume f: "filter_by_date df (Some a) (Some b) = Inr out"
  note o = filter_by_date_Inr [OF f]
  from o show "columns out = columns df" by simp
  from o show "rows out = filter (\<lambda>r. \<exists>s. cell_at r ''Testdate'' = Stamp s
                                   \<and> a \<le> s div 86400 \<and> s div 86400 \<le> b) (rows df)"
    by (simp add: between_Some date_def)
  fix a' b'
  assume w: "a' \<le> a \<and> b \<le> b'"
  from o have c: "''Testdate'' \<in> set (columns out)"
    and d: "list_all is_datetime (column_values out ''Testdate'')"
    by (simp_all add: column_values_filtered)
  from o have r: "rows out = filter (\<lambda>r. between (cell_at r ''Testdate'') (Some a) (Some b)) (rows df)"
    by simp
  have "filter (\<lambda>r. between (cell_at r ''Testdate'') (Some a') (Some b')) (rows out) = rows out"
    unfolding r using w filter_wider [of a' a b b' "''Testdate''" "rows df"] by blast
  then show "filter_by_date out (Some a') (Some b') = Inr out"
    unfolding filter_by_date_ok [OF c d] by simp
next
  fix lo' hi'
  assume s: "x_axis \<noteq> ''Testdate'' \<and> date_slider u df key x_axis = Inr (lo', hi')"
  then have "date_slider u df key x_axis = Inr (lo', hi')" and x: "x_axis \<noteq> ''Testdate''"
    by simp_all
  note b = date_slider_other_axis [OF x this(1)]
  have "filter (\<lambda>r. between (cell_at r ''Testdate'') lo' hi') (rows df)
      = filter (\<lambda>r. cell_at r ''Testdate'' \<noteq> NA) (rows df)"
  proof (rule filter_cong [OF refl])
    fix r
    assume "r \<in> set (rows df)"
    then have "cell_at r ''Testdate'' \<in> set (column_values df ''Testdate'')"
      by (simp add: column_values_def)
    with b show "between (cell_at r ''Testdate'') lo' hi' = (cell_at r ''Testdate'' \<noteq> NA)"
      by (simp add: between_own_bounds)
  qed
  with b show own: "filter_by_date df lo' hi'
           = Inr (df\<lparr>rows := filter (\<lambda>r. cell_at r ''Testdate'' \<noteq> NA) (rows df)\<rparr>)"
    by (simp add: filter_by_date_ok)
  assume "\<forall>r \<in> set (rows df). cell_at r ''Testdate'' \<noteq> NA"
  then have "filter (\<lambda>r. cell_at r ''Testdate'' \<noteq> NA) (rows df) = rows df"
    by (simp add: filter_id_conv)
  with own show "filter_by_date df lo' hi' = Inr df" by simp
qed

theorem date_filter_witness:
  "''Testdate'' \<in> set (columns same_day)
   \<and> list_all is_datetime (column_values same_day ''Testdate'')
   \<and> filter_by_date same_day (Some 19358) (Some 19358) = Inr same_day
   \<and> (19000::int) \<le> 19358 \<and> (19358::int) \<le> 20000
   \<and> filter_by_date same_day (Some 19000) (Some 20000) = Inr same_day
   \<and> ''Assay'' \<noteq> ''Testdate''
   \<and> date_slider untouched same_day ''box plot'' ''Assay'' = Inr (Some 19358, Some 19358)
   \<and> list_all (\<lambda>r. cell_at r ''Testdate'' \<noteq> NA) (rows same_day)
   \<and> map (\<lambda>r. cell_at r ''Testdate'') (rows same_day) = [Stamp 1672531200, Stamp 1672614000]
   \<and> (1672614000::int) div 86400 = 19358 \<and> (1672614000::int) mod 86400 = 82800"
proof -
  have c: "''Testdate'' \<in> set (columns same_day)
      \<and> list_all is_datetime (column_values same_day ''Testdate'')"
    by (simp add: same_day_def column_values_def cell_at_def)
  have x: "''Assay'' \<noteq> ''Testdate''" by simp
  have s: "date_slider untouched same_day ''box plot'' ''Assay'' = Inr (Some 19358, Some 19358)"
    by (simp add: date_slider_def datetime_column_def getitem_def column_values_def
        same_day_def and_then_def cell_at_def stamp_min_def stamp_max_def date_def)
  have p: "list_all (\<lambda>r. cell_at r ''Testdate'' \<noteq> NA) (rows same_day)"
    by (simp add: same_day_def cell_at_def)
  then have p': "\<forall>r \<in> set (rows same_day). cell_at r ''Testdate'' \<noteq> NA"
    by (simp add: list_all_iff)
  have v: "map (\<lambda>r. cell_at r ''Testdate'') (rows same_day) = [Stamp 1672531200, Stamp 1672614000]"
    by (simp add: same_day_def cell_at_def)
  have n: "(19000::int) \<le> 19358 \<and> (19358::int) \<le> 20000" by simp
  have t: "(1672614000::int) div 86400 = 19358 \<and> (1672614000::int) mod 86400 = 82800" by simp
  note d = date_filter [where df = same_day and x_axis = "''Assay''" and u = untouched
      and key = "''box plot''" and a = 19358 and b = 19358]
  from d x s p' have 1: "filter_by_date same_day (Some 19358) (Some 19358) = Inr same_day"
    by blast
  with d n have 2: "filter_by_date same_day (Some 19000) (Some 20000) = Inr same_day"
    by blast
  from c 1 n 2 x s p v t show ?thesis
    by (elim conjE) (intro conjI, assumption+)
qed

text \<open>
  A row without a test date is outside every range: the table's own bounds, taken from the
  one row that has a date, keep that row and drop the other.
\<close>

theorem date_filter_drops_missing_date:
  "date_slider untouched date_missing ''box plot'' ''Assay'' = Inr (Some 19358, Some 19358)
   \<and> filter_by_date date_missing (Some 19358) (Some 19358)
       = Inr \<lparr>columns = [''Testdate'', ''Assay''],
              rows = [[(''Testdate'', Stamp 1672531200), (''Assay'', Str ''A'')]]\<rparr>
   \<and> length (rows date_missing) = 2"
  by code_simp

section \<open>What the loader guarantees\<close>

lemma to_datetime_Inr:
  "to_datetime strptime vs = Inr ds \<Longrightarrow> length ds = length vs \<and> list_all is_datetime ds"
proof (induction vs arbitrary: ds)
  case Nil
  then show ?case by simp
next
  case (Cons v vs)
  from Cons.prems obtain w ws where w: "ds = w # ws" and ws: "to_datetime strptime vs = Inr ws"
    and d: "is_datetime w"
    by (cases v) (auto simp: and_then_def split: sum.splits option.splits)
  from Cons.IH [OF ws] w d show ?case by simp
qed

lemma column_values_set_column:
  "length vs = length (rows df) \<Longrightarrow> column_values (set_column df c vs) c = vs"
proof -
  assume "length vs = length (rows df)"
  then have "map (\<lambda>r. cell_at r c) (map (\<lambda>(r, v). (c, v) # filter (\<lambda>(d, w). d \<noteq> c) r) (zip (rows df) vs)) = vs"
  proof (induction vs "rows df" arbitrary: df rule: list_induct2)
    case Nil
    then show ?case by simp
  next
    case (Cons v vs r rs)
    from Cons(2) [of "\<lparr>columns = [], rows = rs\<rparr>"] Cons(3) [symmetric]
    show ?case by (simp add: cell_at_def)
  qed
  then show ?thesis by (simp add: column_values_def set_column_def)
qed

text \<open>
  A table that \<^verbatim>\<open>load_data\<close> returns has a Testdate column, all of whose cells are
  datetimes or missing, and no column whose name starts with ``Unnamed''.
\<close>

lemma load_data_Inr:
  assumes "load_data strptime f = Inr df"
  shows "''Testdate'' \<in> set (columns df)
     \<and> list_all is_datetime (column_values df ''Testdate'')
     \<and> (\<forall>c \<in> set (columns df). \<not> prefix ''Unnamed'' c)"
proof -
  from assms obtain df0 where df0: "read_csv f = Inr df0"
    unfolding load_data_def and_then_def by (auto split: sum.splits)
  let ?d = "drop_unnamed df0"
  from assms df0 obtain vs ds where vs: "getitem ?d ''Testdate'' = Inr vs"
    and ds: "to_datetime strptime vs = Inr ds" and df: "df = set_column ?d ''Testdate'' ds"
    unfolding load_data_def and_then_def Let_def by (auto split: sum.splits)
  from vs have c: "''Testdate'' \<in> set (columns ?d)" and v: "vs = column_values ?d ''Testdate''"
    by (auto simp: getitem_def split: if_splits)
  from to_datetime_Inr [OF ds] v have l: "length ds = length (rows ?d)" and t: "list_all is_datetime ds"
    by (simp_all add: column_values_def)
  have "columns df = columns ?d" by (simp add: df set_column_def)
  moreover have "column_values df ''Testdate'' = ds"
    unfolding df using l by (rule column_values_set_column)
  moreover have "\<forall>c \<in> set (columns ?d). \<not> prefix ''Unnamed'' c"
    by (simp add: drop_unnamed_def)
  ultimately show ?thesis using c t by simp
qed

end
